theory Spec2Isabelle
  imports Main "HOL-Library.Sublist"
begin

section \<open>Metadata values\<close>

text \<open>
  The providers of \<^verbatim>\<open>cubes/providers.py\<close> work on the values that \<^verbatim>\<open>json.load\<close>
  returns: \<^verbatim>\<open>None\<close>, numbers, strings, lists and dictionaries with string keys.
  Python's \<^verbatim>\<open>bool\<close> is a subtype of \<^verbatim>\<open>int\<close> with \<^verbatim>\<open>True == 1\<close> and
  \<^verbatim>\<open>False == 0\<close>, and this module never tells them apart, so \<^verbatim>\<open>true\<close> and
  \<^verbatim>\<open>false\<close> are \<open>JInt 1\<close> and \<open>JInt 0\<close>. Numbers are integers (no floats).
  A dictionary is a map from its keys to its values: Python 2 dictionaries have no
  order, and \<^verbatim>\<open>==\<close> on them compares keys and values only. With these choices
  Python's \<^verbatim>\<open>==\<close> on metadata values is HOL's equality.

  The values are trees: two places of a document never hold the same object, as in
  everything \<^verbatim>\<open>json.load\<close> builds.
\<close>

datatype json =
    JNone
  | JInt int
  | JStr string
  | JList "json list"
  | JDict "string \<Rightarrow> json option"

type_synonym dict = "string \<rightharpoonup> json"

text \<open>
  The messages of the \<^verbatim>\<open>ModelError\<close>s that the module raises, with the values that
  are formatted into them.
\<close>

datatype message =
    MainModelInfoMissing
  | DimensionFileNoName string
  | CubeFileNoName string
  | CubeDefinedMultipleTimes json string
  | MissingJoinName
  | DuplicateJoinName json
  | NoMasterInJoin json json
  | NoDetailInJoin json json

text \<open>
  The exceptions. \<open>OutsideModel\<close> is not a Python exception: it marks the three
  places where the result of the Python depends on what this embedding leaves out
  (\<^verbatim>\<open>dict.update\<close> with a non-empty list of pairs, which can add keys that are not
  strings; iteration over a non-empty dictionary, whose order is that of the hash
  table; and a \<^verbatim>\<open>model.json\<close> that holds something else than an object). Nothing
  is stated about the Python there.
\<close>

datatype error =
    ArgumentError
  | ModelError message
  | NoSuchCubeError string
  | NoSuchDimensionError string
  | KeyError json
  | TypeError
  | AttributeError
  | ValueError
  | SyntaxError
  | IOError
  | OutsideModel

section \<open>The operations of Python that the module uses\<close>

text \<open>Truth value of an object: \<^verbatim>\<open>if x:\<close>.\<close>

fun truthy :: "json \<Rightarrow> bool" where
  "truthy JNone = False"
| "truthy (JInt i) = (i \<noteq> 0)"
| "truthy (JStr s) = (s \<noteq> [])"
| "truthy (JList xs) = (xs \<noteq> [])"
| "truthy (JDict m) = (m \<noteq> Map.empty)"

text \<open>\<^verbatim>\<open>d.get(k)\<close> and \<^verbatim>\<open>d.get(k, default)\<close> on a dictionary.\<close>

definition get_default :: "dict \<Rightarrow> string \<Rightarrow> json \<Rightarrow> json" where
  "get_default d k dflt = (case d k of None \<Rightarrow> dflt | Some v \<Rightarrow> v)"

definition get :: "dict \<Rightarrow> string \<Rightarrow> json" where
  "get d k = get_default d k JNone"

text \<open>\<^verbatim>\<open>d.pop(k, default)\<close>: the value, and the dictionary without the key.\<close>

definition pop :: "dict \<Rightarrow> string \<Rightarrow> json \<Rightarrow> json \<times> dict" where
  "pop d k dflt = (get_default d k dflt, d(k := None))"

text \<open>
  \<^verbatim>\<open>x.get(k)\<close> on any value: only dictionaries have the method.
\<close>

fun py_get :: "json \<Rightarrow> string \<Rightarrow> error + json" where
  "py_get (JDict d) k = Inr (get d k)"
| "py_get _ k = Inl AttributeError"

text \<open>
  \<^verbatim>\<open>x[k]\<close> with a string \<open>k\<close>: a missing key of a dictionary is a
  \<^verbatim>\<open>KeyError\<close>; lists and strings want integer indices and the other values have no
  items at all, both a \<^verbatim>\<open>TypeError\<close>.
\<close>

fun py_getitem :: "json \<Rightarrow> string \<Rightarrow> error + json" where
  "py_getitem (JDict d) k = (case d k of None \<Rightarrow> Inl (KeyError (JStr k)) | Some v \<Rightarrow> Inr v)"
| "py_getitem _ k = Inl TypeError"

text \<open>Lists and dictionaries cannot be keys of a dictionary.\<close>

fun hashable :: "json \<Rightarrow> bool" where
  "hashable (JList xs) = False"
| "hashable (JDict d) = False"
| "hashable _ = True"

text \<open>
  \<^verbatim>\<open>a + b\<close>: lists and strings are concatenated, integers added, anything else is a
  \<^verbatim>\<open>TypeError\<close>.
\<close>

fun py_add :: "json \<Rightarrow> json \<Rightarrow> error + json" where
  "py_add (JList xs) (JList ys) = Inr (JList (xs @ ys))"
| "py_add (JStr s) (JStr t) = Inr (JStr (s @ t))"
| "py_add (JInt i) (JInt j) = Inr (JInt (i + j))"
| "py_add _ _ = Inl TypeError"

text \<open>
  \<^verbatim>\<open>x in c\<close>: membership in a list (by \<^verbatim>\<open>==\<close>), key of a dictionary (the key is
  hashed first), substring of a string (the left side must be a string); the other
  values are not containers.
\<close>

fun py_in :: "json \<Rightarrow> json \<Rightarrow> error + bool" where
  "py_in x (JList xs) = Inr (x \<in> set xs)"
| "py_in x (JDict d) =
     (if hashable x then Inr (case x of JStr k \<Rightarrow> d k \<noteq> None | _ \<Rightarrow> False)
      else Inl TypeError)"
| "py_in x (JStr s) = (case x of JStr t \<Rightarrow> Inr (sublist t s) | _ \<Rightarrow> Inl TypeError)"
| "py_in x _ = Inl TypeError"

text \<open>
  \<^verbatim>\<open>d.update(x)\<close> on a dictionary \<open>d\<close>: the keys of a dictionary \<open>x\<close> overwrite
  those of \<open>d\<close>. Any other \<open>x\<close> is read as a sequence of pairs: an empty list or
  string changes nothing, the one-character items of a non-empty string are not pairs,
  and \<^verbatim>\<open>None\<close> and numbers are not sequences.
\<close>

fun dict_update :: "dict \<Rightarrow> json \<Rightarrow> error + dict" where
  "dict_update d (JDict e) = Inr (d ++ e)"
| "dict_update d (JList xs) = (if xs = [] then Inr d else Inl OutsideModel)"
| "dict_update d (JStr s) = (if s = [] then Inr d else Inl ValueError)"
| "dict_update d _ = Inl TypeError"

text \<open>\<^verbatim>\<open>x.update(y)\<close> on any value: only dictionaries have the method.\<close>

fun py_update :: "json \<Rightarrow> json \<Rightarrow> error + json" where
  "py_update (JDict d) y = map_sum id JDict (dict_update d y)"
| "py_update _ y = Inl AttributeError"

text \<open>
  \<^verbatim>\<open>for x in c\<close>: the items of a list, the characters of a string, the keys of a
  dictionary; \<^verbatim>\<open>None\<close> and numbers are not iterable.
\<close>

fun py_iter :: "json \<Rightarrow> error + json list" where
  "py_iter (JList xs) = Inr xs"
| "py_iter (JStr s) = Inr (map (\<lambda>c. JStr [c]) s)"
| "py_iter (JDict d) = (if d = Map.empty then Inr [] else Inl OutsideModel)"
| "py_iter _ = Inl TypeError"

section \<open>Raising and propagating\<close>

text \<open>
  A call that raises is \<open>Inl\<close> of the exception, a call that returns is \<open>Inr\<close> of
  the value; \<open>ebind\<close> runs the rest of a body after a call that returned and
  propagates the exception otherwise.
\<close>

fun ebind :: "error + 'a \<Rightarrow> ('a \<Rightarrow> error + 'b) \<Rightarrow> error + 'b" where
  "ebind (Inl e) f = Inl e"
| "ebind (Inr v) f = f v"

text \<open>\<^verbatim>\<open>try: ... except KeyError: raise ModelError(msg)\<close>.\<close>

fun except_KeyError :: "error + 'a \<Rightarrow> message \<Rightarrow> error + 'a" where
  "except_KeyError (Inl (KeyError k)) msg = Inl (ModelError msg)"
| "except_KeyError r msg = r"

section \<open>The provider-default merge\<close>

text \<open>
  \<^verbatim>\<open>ModelProvider._merge_metadata(metadata, other)\<close>. Both arguments are
  dictionaries and are copied first, so neither loses a key. The values under
  \<^verbatim>\<open>cubes\<close>, \<^verbatim>\<open>dimensions\<close> and \<^verbatim>\<open>joins\<close> are added, the mappings updated, and each
  result is stored only when it is true. The pair is the two local copies.
\<close>

definition merge_key :: "string \<Rightarrow> dict \<times> dict \<Rightarrow> error + (dict \<times> dict)" where
  "merge_key k mo =
     (let (a, md1) = pop (fst mo) k (JList []);
          (b, other1) = pop (snd mo) k (JList [])
      in ebind (py_add a b) (\<lambda>v.
           Inr (if truthy v then md1(k \<mapsto> v) else md1, other1)))"

definition merge_mappings :: "dict \<times> dict \<Rightarrow> error + (dict \<times> dict)" where
  "merge_mappings mo =
     (let (mappings, md1) = pop (fst mo) ''mappings'' (JDict Map.empty);
          (b, other1) = pop (snd mo) ''mappings'' (JDict Map.empty)
      in ebind (py_update mappings b) (\<lambda>v.
           Inr (if truthy v then md1(''mappings'' \<mapsto> v) else md1, other1)))"

definition merge_metadata :: "dict \<Rightarrow> dict \<Rightarrow> error + dict" where
  "merge_metadata md other =
     ebind (merge_key ''cubes'' (md, other)) (\<lambda>mo1.
     ebind (merge_key ''dimensions'' mo1) (\<lambda>mo2.
     ebind (merge_key ''joins'' mo2) (\<lambda>mo3.
     ebind (merge_mappings mo3) (\<lambda>mo4.
     Inr (fst mo4 ++ snd mo4)))))"

section \<open>The provider\<close>

text \<open>
  The state of a \<^verbatim>\<open>ModelProvider\<close>: the merged metadata and the three dictionaries
  that \<^verbatim>\<open>__init__\<close> derives from it. The keys of the two indexes are the values
  found under \<^verbatim>\<open>name\<close>, whatever they are; the indexed cubes and dimensions are
  dictionaries, since \<^verbatim>\<open>__init__\<close> has read their \<^verbatim>\<open>name\<close> with \<^verbatim>\<open>cube["name"]\<close>.
  (\<^verbatim>\<open>store\<close> and \<^verbatim>\<open>store_name\<close> play no part in what follows and are left out.)
\<close>

record provider =
  metadata :: dict
  dimensions_metadata :: "json \<rightharpoonup> dict"
  cubes_metadata :: "json \<rightharpoonup> dict"
  options :: dict

text \<open>
  \<^verbatim>\<open>for x in xs: index[x["name"]] = x\<close>: a later item replaces an earlier one of
  the same name.
\<close>

fun index_by_name :: "json list \<Rightarrow> (json \<rightharpoonup> dict) \<Rightarrow> error + (json \<rightharpoonup> dict)" where
  "index_by_name [] index = Inr index"
| "index_by_name (JDict d # xs) index =
     ebind (py_getitem (JDict d) ''name'') (\<lambda>n.
       if hashable n then index_by_name xs (index(n \<mapsto> d)) else Inl TypeError)"
| "index_by_name (x # xs) index = Inl TypeError"

text \<open>
  \<^verbatim>\<open>ModelProvider.__init__(metadata)\<close>, with the result of \<^verbatim>\<open>default_metadata()\<close>
  as \<open>defaults\<close> (the base class returns the empty dictionary, a subclass may return
  more). \<^verbatim>\<open>self.options\<close> is the dictionary stored under \<^verbatim>\<open>options\<close> itself, when
  there is one, so updating it with the browser options changes the stored metadata
  too.
\<close>

definition init :: "dict \<Rightarrow> dict \<Rightarrow> error + provider" where
  "init defaults user =
     ebind (merge_metadata defaults user) (\<lambda>md.
     ebind (py_iter (get_default md ''dimensions'' (JList []))) (\<lambda>dims.
     ebind (index_by_name dims Map.empty) (\<lambda>dm.
     ebind (py_iter (get_default md ''cubes'' (JList []))) (\<lambda>cubes.
     ebind (index_by_name cubes Map.empty) (\<lambda>cm.
     (case get_default md ''options'' (JDict Map.empty) of
        JDict opts \<Rightarrow>
          ebind (dict_update opts (get_default md ''browser_options'' (JDict Map.empty)))
            (\<lambda>opts'.
               Inr \<lparr>metadata = (if md ''options'' = None then md
                                else md(''options'' \<mapsto> JDict opts')),
                    dimensions_metadata = dm, cubes_metadata = cm, options = opts'\<rparr>)
      | _ \<Rightarrow> Inl AttributeError))))))"

text \<open>
  \<^verbatim>\<open>cube_options(cube_name)\<close>: a copy of the model's options, updated with the
  cube's \<^verbatim>\<open>options\<close> and \<^verbatim>\<open>browser_options\<close> when the cube is known.
\<close>

definition cube_options :: "provider \<Rightarrow> string \<Rightarrow> error + dict" where
  "cube_options p cube_name =
     (case cubes_metadata p (JStr cube_name) of
        None \<Rightarrow> Inr (options p)
      | Some cube \<Rightarrow>
          ebind (dict_update (options p) (get_default cube ''options'' (JDict Map.empty)))
            (\<lambda>opts1.
          dict_update opts1 (get_default cube ''browser_options'' (JDict Map.empty))))"

text \<open>\<^verbatim>\<open>dimension_metadata(name)\<close>: \<^verbatim>\<open>self.dimensions_metadata[name]\<close>.\<close>

definition dimension_metadata :: "provider \<Rightarrow> string \<Rightarrow> error + dict" where
  "dimension_metadata p name =
     (case dimensions_metadata p (JStr name) of
        None \<Rightarrow> Inl (KeyError (JStr name))
      | Some dim \<Rightarrow> Inr dim)"

text \<open>
  \<^verbatim>\<open>StaticModelProvider.dimension(name, locale, templates)\<close>. \<^verbatim>\<open>create_dimension\<close>
  comes from \<^verbatim>\<open>cubes.model\<close> and is a parameter here.
\<close>

definition dimension ::
  "(dict \<Rightarrow> 't \<Rightarrow> string \<Rightarrow> error + 'd) \<Rightarrow> provider \<Rightarrow> string \<Rightarrow> 't \<Rightarrow> error + 'd" where
  "dimension create_dimension p name templates =
     (case dimensions_metadata p (JStr name) of
        None \<Rightarrow> Inl (NoSuchDimensionError name)
      | Some dim \<Rightarrow> create_dimension dim templates name)"

section \<open>Cube resolution\<close>

text \<open>
  \<^verbatim>\<open>cube_metadata(name)\<close>, section by section. \<open>model\<close> is \<^verbatim>\<open>self.metadata\<close> and
  \<open>cube\<close> the local copy \<^verbatim>\<open>metadata = dict(self.cubes_metadata[name])\<close>.
\<close>

text \<open>Merge datastore from model if datastore not present.\<close>

definition merge_datastore :: "dict \<Rightarrow> dict \<Rightarrow> dict" where
  "merge_datastore model cube =
     (if \<not> truthy (get cube ''datastore'')
      then cube(''datastore'' \<mapsto> get model ''datastore'')
      else cube)"

text \<open>
  Merge browser options. \<^verbatim>\<open>self.metadata.get('browser_options', {})\<close> is the stored
  dictionary itself when the model has one and a new dictionary otherwise, and
  \<^verbatim>\<open>update\<close> changes its receiver in place: so the result is the value given to the
  cube together with \<^verbatim>\<open>self.metadata\<close> as it is afterwards. An \<^verbatim>\<open>update\<close> that
  raises has changed nothing.
\<close>

definition merge_browser_options :: "dict \<Rightarrow> dict \<Rightarrow> error + (json \<times> dict)" where
  "merge_browser_options model cube =
     (let browser_options = get_default model ''browser_options'' (JDict Map.empty) in
      if truthy (get cube ''browser_options'')
      then ebind (py_update browser_options (get cube ''browser_options'')) (\<lambda>updated.
             Inr (updated,
                  if model ''browser_options'' = None then model
                  else model(''browser_options'' \<mapsto> updated)))
      else Inr (browser_options, model))"

text \<open>
  Merge model and cube mappings: the model's mappings are copied
  (\<^verbatim>\<open>copy.deepcopy\<close>) before the update.
\<close>

definition resolve_mappings :: "dict \<Rightarrow> json \<Rightarrow> error + json" where
  "resolve_mappings model cube_mappings =
     (let model_mappings = get model ''mappings'' in
      if truthy model_mappings then py_update model_mappings cube_mappings
      else Inr cube_mappings)"

text \<open>
  The index \<^verbatim>\<open>model_join_map\<close> of the model's joins by their \<^verbatim>\<open>name\<close>: a join
  without the key is a \<^verbatim>\<open>ModelError\<close>, a name already in the index another.
\<close>

fun model_join_map :: "json list \<Rightarrow> (json \<rightharpoonup> dict) \<Rightarrow> error + (json \<rightharpoonup> dict)" where
  "model_join_map [] index = Inr index"
| "model_join_map (JDict join # joins) index =
     ebind (except_KeyError (py_getitem (JDict join) ''name'') MissingJoinName) (\<lambda>jname.
       if \<not> hashable jname then Inl TypeError
       else if index jname \<noteq> None then Inl (ModelError (DuplicateJoinName jname))
       else model_join_map joins (index(jname \<mapsto> join)))"
| "model_join_map (join # joins) index = Inl TypeError"

text \<open>
  Merge the cube's joins with the model's joins by their names. The loop assigns the
  name of each cube join to the variable \<^verbatim>\<open>name\<close>, the parameter of
  \<^verbatim>\<open>cube_metadata\<close>: the result is the merged list and \<^verbatim>\<open>name\<close> as the loop
  leaves it.
\<close>

fun merge_cube_joins ::
  "(json \<rightharpoonup> dict) \<Rightarrow> json list \<Rightarrow> json \<Rightarrow> dict list \<Rightarrow> error + (dict list \<times> json)" where
  "merge_cube_joins index [] name merged_joins = Inr (merged_joins, name)"
| "merge_cube_joins index (JDict join # joins) name merged_joins =
     (let name' = get join ''name'' in
      if truthy name' then
        (if hashable name' then
           (let model_join = (case index name' of Some j \<Rightarrow> j | None \<Rightarrow> Map.empty)
            in merge_cube_joins index joins name' (merged_joins @ [model_join ++ join]))
         else Inl TypeError)
      else merge_cube_joins index joins name' (merged_joins @ [join]))"
| "merge_cube_joins index (join # joins) name merged_joins = Inl AttributeError"

text \<open>
  Merge model and cube joins: only when both are true. The result is
  \<^verbatim>\<open>merged_joins\<close> and the variable \<^verbatim>\<open>name\<close>.
\<close>

definition resolve_joins :: "dict \<Rightarrow> json \<Rightarrow> json \<Rightarrow> error + (json \<times> json)" where
  "resolve_joins model name cube_joins =
     (let model_joins = get_default model ''joins'' (JList []) in
      if truthy cube_joins \<and> truthy model_joins then
        ebind (py_iter model_joins) (\<lambda>mjs.
        ebind (model_join_map mjs Map.empty) (\<lambda>index.
        ebind (py_iter cube_joins) (\<lambda>cjs.
        ebind (merge_cube_joins index cjs name []) (\<lambda>r.
        Inr (JList (map JDict (fst r)), snd r)))))
      else Inr (cube_joins, name))"

text \<open>
  Validate joins: the message is formatted from the variable \<^verbatim>\<open>name\<close> and
  \<^verbatim>\<open>join.get("name")\<close>.
\<close>

fun validate_joins :: "json \<Rightarrow> json list \<Rightarrow> error + unit" where
  "validate_joins name [] = Inr ()"
| "validate_joins name (join # joins) =
     ebind (py_in (JStr ''master'') join) (\<lambda>has_master.
       if \<not> has_master
       then ebind (py_get join ''name'') (\<lambda>jn. Inl (ModelError (NoMasterInJoin name jn)))
       else ebind (py_in (JStr ''detail'') join) (\<lambda>has_detail.
         if \<not> has_detail
         then ebind (py_get join ''name'') (\<lambda>jn. Inl (ModelError (NoDetailInJoin name jn)))
         else validate_joins name joins))"

text \<open>
  The joins of the cube, from the merge to the assignment
  \<^verbatim>\<open>metadata["joins"] = merged_joins\<close>; \<open>rest\<close> is the cube's copy without its
  \<^verbatim>\<open>joins\<close>.
\<close>

definition finish_joins :: "dict \<Rightarrow> json \<Rightarrow> json \<Rightarrow> dict \<Rightarrow> error + dict" where
  "finish_joins model name cube_joins rest =
     ebind (resolve_joins model name cube_joins) (\<lambda>r.
     ebind (py_iter (fst r)) (\<lambda>joins.
     ebind (validate_joins (snd r) joins) (\<lambda>u.
     Inr (rest(''joins'' \<mapsto> fst r)))))"

text \<open>
  What \<^verbatim>\<open>cube_metadata\<close> does once the cube is found and the browser options are
  merged: nothing from here on writes to the provider.
\<close>

definition resolve_rest :: "dict \<Rightarrow> string \<Rightarrow> dict \<Rightarrow> error + dict" where
  "resolve_rest model name cube =
     (let (cube_mappings, cube1) = pop cube ''mappings'' (JDict Map.empty) in
      ebind (resolve_mappings model cube_mappings) (\<lambda>mappings.
        let cube2 = cube1(''mappings'' \<mapsto> mappings);
            (cube_joins, cube3) = pop cube2 ''joins'' (JList [])
        in finish_joins model (JStr name) cube_joins cube3))"

text \<open>
  \<^verbatim>\<open>cube_metadata(name)\<close>: what the call returns or raises, and the provider
  afterwards.
\<close>

definition cube_metadata :: "provider \<Rightarrow> string \<Rightarrow> (error + dict) \<times> provider" where
  "cube_metadata p name =
     (case cubes_metadata p (JStr name) of
        None \<Rightarrow> (Inl (NoSuchCubeError name), p)
      | Some stored \<Rightarrow>
          (let cube = merge_datastore (metadata p) stored in
           case merge_browser_options (metadata p) cube of
             Inl e \<Rightarrow> (Inl e, p)
           | Inr r \<Rightarrow>
               (resolve_rest (snd r) name (cube(''browser_options'' \<mapsto> fst r)),
                p\<lparr>metadata := snd r\<rparr>)))"

text \<open>
  \<^verbatim>\<open>StaticModelProvider.cube(name)\<close>. \<^verbatim>\<open>create_cube\<close> comes from \<^verbatim>\<open>cubes.model\<close>
  and is a parameter here.
\<close>

definition cube :: "(dict \<Rightarrow> error + 'c) \<Rightarrow> provider \<Rightarrow> string \<Rightarrow> (error + 'c) \<times> provider" where
  "cube create_cube p name =
     (case cube_metadata p name of (r, p') \<Rightarrow> (ebind r create_cube, p'))"

section \<open>The bundle assembler\<close>

text \<open>
  What \<^verbatim>\<open>read_model_metadata_bundle(path)\<close> sees of the file system: whether
  \<open>path\<close> is a directory, what \<^verbatim>\<open>_json_from_url\<close> makes of \<^verbatim>\<open>model.json\<close> (if the
  file exists), and the files that \<^verbatim>\<open>os.walk\<close> yields, in its order, each with the
  directory it is in and what \<^verbatim>\<open>_json_from_url\<close> makes of it.
\<close>

record bundle_file =
  dirname :: string
  filename :: string
  content :: "error + json"

record model_bundle =
  is_dir :: bool
  model_json :: "(error + json) option"
  files :: "bundle_file list"

text \<open>\<^verbatim>\<open>os.path.join(dirname, filename)\<close> for a file name without a separator.\<close>

definition path_join :: "string \<Rightarrow> string \<Rightarrow> string" where
  "path_join a b =
     (if a = [] then b
      else if last a = CHR ''/'' then a @ b
      else a @ ''/'' @ b)"

text \<open>
  \<^verbatim>\<open>os.path.splitext(filename)[1]\<close>: the part from the last dot on, unless only
  dots come before it.
\<close>

definition splitext_ext :: "string \<Rightarrow> string" where
  "splitext_ext p =
     (let r = rev p in
      case dropWhile (\<lambda>c. c \<noteq> CHR ''.'') r of
        [] \<Rightarrow> []
      | dot # before \<Rightarrow>
          if list_ex (\<lambda>c. c \<noteq> CHR ''.'') before
          then CHR ''.'' # rev (takeWhile (\<lambda>c. c \<noteq> CHR ''.'') r)
          else [])"

text \<open>\<^verbatim>\<open>re.split('_', filename)[0]\<close>.\<close>

definition prefix_of :: "string \<Rightarrow> string" where
  "prefix_of name = takeWhile (\<lambda>c. c \<noteq> CHR ''_'') name"

text \<open>\<^verbatim>\<open>xs.append(x)\<close>: only lists have the method.\<close>

fun py_append :: "json \<Rightarrow> json \<Rightarrow> error + json" where
  "py_append (JList xs) x = Inr (JList (xs @ [x]))"
| "py_append _ x = Inl AttributeError"

text \<open>
  The body of the loop for one dimension file and for one cube file. The test
  \<^verbatim>\<open>name in model["dimensions"]\<close> looks for the name among the entries of the list.
  In the dimension branch the message is built by
  \<^verbatim>\<open>"... '%s' ... " % "(in '%s')" % (name, obj_path)\<close>: the first \<^verbatim>\<open>%\<close> uses up the
  only placeholder and the second then has two arguments for one placeholder, so the
  \<^verbatim>\<open>raise\<close> statement ends in a \<^verbatim>\<open>TypeError\<close> before any \<^verbatim>\<open>ModelError\<close> exists.
\<close>

definition add_dimension :: "string \<Rightarrow> json \<Rightarrow> dict \<Rightarrow> error + dict" where
  "add_dimension obj_path desc model =
     ebind (except_KeyError (py_getitem desc ''name'') (DimensionFileNoName obj_path))
       (\<lambda>name.
     ebind (py_getitem (JDict model) ''dimensions'') (\<lambda>dims.
     ebind (py_in name dims) (\<lambda>found.
       if found then Inl TypeError
       else ebind (py_append dims desc) (\<lambda>dims'.
              Inr (model(''dimensions'' \<mapsto> dims'))))))"

definition add_cube :: "string \<Rightarrow> json \<Rightarrow> dict \<Rightarrow> error + dict" where
  "add_cube obj_path desc model =
     ebind (except_KeyError (py_getitem desc ''name'') (CubeFileNoName obj_path))
       (\<lambda>name.
     ebind (py_getitem (JDict model) ''cubes'') (\<lambda>cubes.
     ebind (py_in name cubes) (\<lambda>found.
       if found then Inl (ModelError (CubeDefinedMultipleTimes name obj_path))
       else ebind (py_append cubes desc) (\<lambda>cubes'.
              Inr (model(''cubes'' \<mapsto> cubes'))))))"

text \<open>The loop over the files.\<close>

fun load_files :: "bundle_file list \<Rightarrow> dict \<Rightarrow> error + dict" where
  "load_files [] model = Inr model"
| "load_files (f # fs) model =
     (if splitext_ext (filename f) \<noteq> ''.json'' then load_files fs model
      else
        (let prefix = prefix_of (filename f);
             obj_path = path_join (dirname f) (filename f)
         in if prefix = ''dim'' \<or> prefix = ''dimension'' then
              ebind (content f) (\<lambda>desc.
              ebind (add_dimension obj_path desc model) (load_files fs))
            else if prefix = ''cube'' then
              ebind (content f) (\<lambda>desc.
              ebind (add_cube obj_path desc model) (load_files fs))
            else load_files fs model))"

text \<open>
  \<^verbatim>\<open>read_model_metadata_bundle(path)\<close>. The main file holds a JSON object; what
  the function does with another kind of value there is not modelled.
\<close>

definition read_model_metadata_bundle :: "model_bundle \<Rightarrow> error + dict" where
  "read_model_metadata_bundle b =
     (if \<not> is_dir b then Inl ArgumentError
      else case model_json b of
        None \<Rightarrow> Inl (ModelError MainModelInfoMissing)
      | Some loaded \<Rightarrow>
          ebind loaded (\<lambda>doc.
            case doc of
              JDict model \<Rightarrow>
                (let model1 = (if model ''dimensions'' = None
                               then model(''dimensions'' \<mapsto> JList []) else model);
                     model2 = (if model1 ''cubes'' = None
                               then model1(''cubes'' \<mapsto> JList []) else model1)
                 in load_files (files b) model2)
            | _ \<Rightarrow> Inl OutsideModel))"

section \<open>The validator\<close>

text \<open>
  A finding: the named tuple \<^verbatim>\<open>ValidationError(severity, scope, object, property,
  message)\<close>. The messages are those of the module, with the value formatted into
  them, or the message of a schema error.
\<close>

datatype finding_message =
    SchemaMessage string
  | DimensionNotDescribed string
  | NoDefaultHierarchyName
  | NeitherLevelsNorAttributes
  | BothLevelsAndAttributes

datatype validation_error =
  ValidationError (severity: string) (scope: string) (object: json)
    (property: "string option") (message: finding_message)

text \<open>
  The structural validation is the work of the \<^verbatim>\<open>jsonschema\<close> package and the
  three schemas are data files of the \<^verbatim>\<open>cubes\<close> package: a validator is a parameter,
  the function from a value to the errors that \<^verbatim>\<open>Draft4Validator(schema).iter_errors\<close>
  yields for it, each with its path (every item already through \<^verbatim>\<open>str\<close>) and its
  message.
\<close>

type_synonym validator = "json \<Rightarrow> (string list \<times> string) list"

record validators =
  model_schema :: validator
  cube_schema :: validator
  dimension_schema :: validator

text \<open>\<^verbatim>\<open>".".join(path)\<close>.\<close>

fun join_dot :: "string list \<Rightarrow> string" where
  "join_dot [] = []"
| "join_dot [x] = x"
| "join_dot (x # y # ys) = x @ ''.'' @ join_dot (y # ys)"

definition collect_errors :: "string \<Rightarrow> json \<Rightarrow> validator \<Rightarrow> json \<Rightarrow> validation_error list" where
  "collect_errors scp obj v md =
     map (\<lambda>err. ValidationError ''error'' scp obj
                  (if fst err \<noteq> [] then Some (join_dot (fst err)) else None)
                  (SchemaMessage (snd err)))
         (v md)"

text \<open>The advisory finding of \<^verbatim>\<open>validate_model\<close> for one entry of the dimension list.\<close>

fun bare_dimension :: "json \<Rightarrow> validation_error list" where
  "bare_dimension (JStr dim) =
     [ValidationError ''default'' ''model'' JNone (Some ''dimensions'')
        (DimensionNotDescribed dim)]"
| "bare_dimension _ = []"

definition validate_model :: "validators \<Rightarrow> json \<Rightarrow> error + validation_error list" where
  "validate_model vs md =
     (let errors = collect_errors ''model'' JNone (model_schema vs) md in
      ebind (py_get md ''dimensions'') (\<lambda>dims.
        Inr (errors @
             (case dims of
                JList ds \<Rightarrow> concat (map bare_dimension ds)
              | _ \<Rightarrow> []))))"

definition validate_cube :: "validators \<Rightarrow> json \<Rightarrow> error + validation_error list" where
  "validate_cube vs c =
     ebind (py_get c ''name'') (\<lambda>name.
       Inr (collect_errors ''cube'' name (cube_schema vs) c))"

fun validate_dimension :: "validators \<Rightarrow> json \<Rightarrow> error + validation_error list" where
  "validate_dimension vs (JDict dim) =
     (let name = get dim ''name'';
          errors = collect_errors ''dimension'' name (dimension_schema vs) (JDict dim);
          errors1 = (if dim ''default_hierarchy_name'' = None
                     then errors @ [ValidationError ''default'' ''dimension'' name None
                                      NoDefaultHierarchyName]
                     else errors)
      in Inr (if dim ''levels'' = None \<and> dim ''attributes'' = None
              then errors1 @ [ValidationError ''default'' ''dimension'' name None
                                NeitherLevelsNorAttributes]
              else if dim ''levels'' \<noteq> None \<and> dim ''attributes'' \<noteq> None
              then errors1 @ [ValidationError ''error'' ''dimension'' name None
                                BothLevelsAndAttributes]
              else errors1))"
| "validate_dimension vs dim = Inl AttributeError"

text \<open>\<^verbatim>\<open>for x in xs: errors += check(x)\<close>.\<close>

fun validate_each ::
  "(json \<Rightarrow> error + validation_error list) \<Rightarrow> json list \<Rightarrow> error + validation_error list" where
  "validate_each check [] = Inr []"
| "validate_each check (x # xs) =
     ebind (check x) (\<lambda>errors.
     ebind (validate_each check xs) (\<lambda>more. Inr (errors @ more)))"

text \<open>\<^verbatim>\<open>if key in self.metadata: for x in self.metadata[key]: errors += check(x)\<close>.\<close>

definition validate_key ::
  "string \<Rightarrow> (json \<Rightarrow> error + validation_error list) \<Rightarrow> json \<Rightarrow> error + validation_error list" where
  "validate_key k check md =
     ebind (py_in (JStr k) md) (\<lambda>present.
       if present
       then ebind (py_getitem md k) (\<lambda>v.
            ebind (py_iter v) (validate_each check))
       else Inr [])"

text \<open>\<^verbatim>\<open>ModelMetadataValidator(metadata).validate()\<close>.\<close>

definition validate :: "validators \<Rightarrow> json \<Rightarrow> error + validation_error list" where
  "validate vs md =
     ebind (validate_model vs md) (\<lambda>errors.
     ebind (validate_key ''cubes'' (validate_cube vs) md) (\<lambda>errors1.
     ebind (validate_key ''dimensions'' (validate_dimension vs) md) (\<lambda>errors2.
     Inr (errors @ errors1 @ errors2))))"

section \<open>The vocabulary of the specification\<close>

text \<open>
  The specification speaks of documents of the shape that the schemas describe: the
  lists of a model are lists, its option and mapping blocks are objects, and a join is
  an object. \<open>holds_list d k\<close> and \<open>holds_dict d k\<close> say that the key \<open>k\<close> of \<open>d\<close>
  is absent or holds a value of that shape, and \<open>list_at\<close> and \<open>dict_at\<close> read the
  key as its consumers do, with the empty value for an absent key.
\<close>

definition holds_list :: "dict \<Rightarrow> string \<Rightarrow> bool" where
  "holds_list d k = (case d k of None \<Rightarrow> True | Some (JList xs) \<Rightarrow> True | Some _ \<Rightarrow> False)"

definition holds_dict :: "dict \<Rightarrow> string \<Rightarrow> bool" where
  "holds_dict d k = (case d k of None \<Rightarrow> True | Some (JDict e) \<Rightarrow> True | Some _ \<Rightarrow> False)"

definition list_at :: "dict \<Rightarrow> string \<Rightarrow> json list" where
  "list_at d k = (case d k of Some (JList xs) \<Rightarrow> xs | _ \<Rightarrow> [])"

definition dict_at :: "dict \<Rightarrow> string \<Rightarrow> dict" where
  "dict_at d k = (case d k of Some (JDict e) \<Rightarrow> e | _ \<Rightarrow> Map.empty)"

text \<open>The option and mapping blocks of a model and of one of its cubes are objects.\<close>

definition blocks_ok :: "dict \<Rightarrow> dict \<Rightarrow> bool" where
  "blocks_ok model c =
     (holds_dict model ''browser_options'' \<and> holds_dict c ''browser_options'' \<and>
      holds_dict model ''mappings'' \<and> holds_dict c ''mappings'')"

text \<open>A join that carries both \<^verbatim>\<open>master\<close> and \<^verbatim>\<open>detail\<close>.\<close>

definition complete_join :: "dict \<Rightarrow> bool" where
  "complete_join j = (j ''master'' \<noteq> None \<and> j ''detail'' \<noteq> None)"

text \<open>
  A model join that is acceptable to the name index: it has a name, and the name can
  be a key.
\<close>

definition named_join :: "dict \<Rightarrow> bool" where
  "named_join j = (j ''name'' \<noteq> None \<and> hashable (get j ''name''))"

text \<open>
  The specification's resolved join. ``Start from a copy of the model join and
  overwrite fields with the cube join's fields (cube wins field-by-field)'':
\<close>

definition spec_overwrite :: "dict \<Rightarrow> dict \<Rightarrow> dict" where
  "spec_overwrite model_join cube_join =
     (\<lambda>k. case cube_join k of Some v \<Rightarrow> Some v | None \<Rightarrow> model_join k)"

text \<open>
  ``for named cube joins matching a model join by name ...; unmatched or unnamed cube
  joins pass through verbatim'', where a cube join is named when its \<^verbatim>\<open>name\<close> is
  true:
\<close>

definition spec_resolve_join :: "dict list \<Rightarrow> dict \<Rightarrow> dict" where
  "spec_resolve_join model_joins cube_join =
     (case find (\<lambda>mj. truthy (get cube_join ''name'') \<and>
                       mj ''name'' = Some (get cube_join ''name'')) model_joins of
        Some mj \<Rightarrow> spec_overwrite mj cube_join
      | None \<Rightarrow> cube_join)"

section \<open>Example documents\<close>

text \<open>The provider that \<^verbatim>\<open>ModelProvider(metadata)\<close> constructs.\<close>

definition provider_of :: "dict \<Rightarrow> provider" where
  "provider_of md = projr (init Map.empty md)"

text \<open>
  A model with browser options and two cubes, of which only \<^verbatim>\<open>A\<close> has browser
  options of its own.
\<close>

definition two_cubes :: dict where
  "two_cubes =
     [''browser_options'' \<mapsto> JDict [''limit'' \<mapsto> JInt 10],
      ''cubes'' \<mapsto> JList
         [JDict [''name'' \<mapsto> JStr ''A'',
                 ''browser_options'' \<mapsto> JDict [''safe'' \<mapsto> JInt 1]],
          JDict [''name'' \<mapsto> JStr ''B'']]]"

text \<open>
  A bundle with two dimension files and two cube files, the two of each kind with the
  same \<^verbatim>\<open>name\<close>.
\<close>

definition twice_bundle :: model_bundle where
  "twice_bundle =
     \<lparr>is_dir = True,
      model_json = Some (Inr (JDict [''name'' \<mapsto> JStr ''m''])),
      files =
        [\<lparr>dirname = ''m'', filename = ''model.json'',
          content = Inr (JDict [''name'' \<mapsto> JStr ''m''])\<rparr>,
         \<lparr>dirname = ''m'', filename = ''dim_a.json'',
          content = Inr (JDict [''name'' \<mapsto> JStr ''time''])\<rparr>,
         \<lparr>dirname = ''m'', filename = ''dim_b.json'',
          content = Inr (JDict [''name'' \<mapsto> JStr ''time''])\<rparr>,
         \<lparr>dirname = ''m'', filename = ''cube_a.json'',
          content = Inr (JDict [''name'' \<mapsto> JStr ''sales''])\<rparr>,
         \<lparr>dirname = ''m'', filename = ''cube_b.json'',
          content = Inr (JDict [''name'' \<mapsto> JStr ''sales''])\<rparr>]\<rparr>"

text \<open>A model document whose only dimension is the bare name \<^verbatim>\<open>time\<close>.\<close>

definition bare_time :: json where
  "bare_time = JDict [''dimensions'' \<mapsto> JList [JStr ''time'']]"

text \<open>
  The scenario of the specification: the cube join \<^verbatim>\<open>j1\<close> overrides the
  \<^verbatim>\<open>detail\<close> of the model join \<^verbatim>\<open>j1\<close>.
\<close>

definition j1_model_join :: dict where
  "j1_model_join =
     [''name'' \<mapsto> JStr ''j1'', ''master'' \<mapsto> JStr ''a.id'', ''detail'' \<mapsto> JStr ''b.aid'']"

definition j1_cube_join :: dict where
  "j1_cube_join = [''name'' \<mapsto> JStr ''j1'', ''detail'' \<mapsto> JStr ''b.aid2'']"

definition j1_cube :: dict where
  "j1_cube = [''name'' \<mapsto> JStr ''sales'', ''joins'' \<mapsto> JList [JDict j1_cube_join]]"

definition j1_model :: dict where
  "j1_model =
     [''joins'' \<mapsto> JList [JDict j1_model_join], ''cubes'' \<mapsto> JList [JDict j1_cube]]"

text \<open>
  The same with the empty string for the name of both joins, and a model join that
  has one more field.
\<close>

definition anon_model_join :: dict where
  "anon_model_join =
     [''name'' \<mapsto> JStr [], ''master'' \<mapsto> JStr ''a.id'', ''detail'' \<mapsto> JStr ''b.aid'',
      ''alias'' \<mapsto> JStr ''b1'']"

definition anon_cube_join :: dict where
  "anon_cube_join =
     [''name'' \<mapsto> JStr [], ''master'' \<mapsto> JStr ''a.id'', ''detail'' \<mapsto> JStr ''b.aid2'']"

definition anon_cube :: dict where
  "anon_cube = [''name'' \<mapsto> JStr ''sales'', ''joins'' \<mapsto> JList [JDict anon_cube_join]]"

definition anon_model :: dict where
  "anon_model =
     [''joins'' \<mapsto> JList [JDict anon_model_join], ''cubes'' \<mapsto> JList [JDict anon_cube]]"

text \<open>
  A cube \<^verbatim>\<open>sales\<close> whose join \<^verbatim>\<open>j2\<close> has no \<^verbatim>\<open>detail\<close> and matches no model
  join.
\<close>

definition j2_cube :: dict where
  "j2_cube =
     [''name'' \<mapsto> JStr ''sales'',
      ''joins'' \<mapsto> JList [JDict [''name'' \<mapsto> JStr ''j2'', ''master'' \<mapsto> JStr ''a.id'']]]"

definition j2_model :: dict where
  "j2_model =
     [''joins'' \<mapsto> JList [JDict j1_model_join], ''cubes'' \<mapsto> JList [JDict j2_cube]]"

text \<open>
  Model joins of which the first two share the name \<^verbatim>\<open>j1\<close> and the third has no
  name, with the cube of the scenario.
\<close>

definition nameless_join :: dict where
  "nameless_join = [''master'' \<mapsto> JStr ''a'', ''detail'' \<mapsto> JStr ''b'']"

definition defective_model :: dict where
  "defective_model =
     [''joins'' \<mapsto> JList [JDict j1_model_join, JDict j1_model_join, JDict nameless_join],
      ''cubes'' \<mapsto> JList [JDict j1_cube]]"

text \<open>
  The scenario of the specification: a model join without a name and a cube without
  joins.
\<close>

definition plain_cube :: dict where
  "plain_cube = [''name'' \<mapsto> JStr ''sales'', ''datastore'' \<mapsto> JStr []]"

definition nameless_model :: dict where
  "nameless_model =
     [''joins'' \<mapsto> JList [JDict nameless_join], ''cubes'' \<mapsto> JList [JDict plain_cube],
      ''datastore'' \<mapsto> JStr ''main'']"

text \<open>Defaults and user metadata for the provider-default merge.\<close>

definition some_defaults :: dict where
  "some_defaults =
     [''cubes'' \<mapsto> JList [JDict [''name'' \<mapsto> JStr ''base'']],
      ''mappings'' \<mapsto> JDict [''a'' \<mapsto> JStr ''t.a'', ''b'' \<mapsto> JStr ''t.b''],
      ''label'' \<mapsto> JStr ''default'', ''locale'' \<mapsto> JStr ''en'']"

definition some_user :: dict where
  "some_user =
     [''cubes'' \<mapsto> JList [JDict [''name'' \<mapsto> JStr ''sales'']],
      ''mappings'' \<mapsto> JDict [''b'' \<mapsto> JStr ''u.b''],
      ''label'' \<mapsto> JStr ''mine'']"

text \<open>What the merge makes of them.\<close>

definition merged_example :: dict where
  "merged_example =
     [''cubes'' \<mapsto> JList [JDict [''name'' \<mapsto> JStr ''base''],
                               JDict [''name'' \<mapsto> JStr ''sales'']],
      ''mappings'' \<mapsto> JDict [''a'' \<mapsto> JStr ''t.a'', ''b'' \<mapsto> JStr ''u.b''],
      ''label'' \<mapsto> JStr ''mine'', ''locale'' \<mapsto> JStr ''en'']"

text \<open>
  Model joins of which the second has no name and no earlier one is repeated, with
  the cube of the scenario.
\<close>

definition missing_name_model :: dict where
  "missing_name_model =
     [''joins'' \<mapsto> JList [JDict j1_model_join, JDict nameless_join],
      ''cubes'' \<mapsto> JList [JDict j1_cube]]"

text \<open>What the resolution of \<^verbatim>\<open>sales\<close> returns in three of these models.\<close>

definition plain_resolved :: dict where
  "plain_resolved =
     [''name'' \<mapsto> JStr ''sales'', ''datastore'' \<mapsto> JStr ''main'',
      ''browser_options'' \<mapsto> JDict Map.empty, ''mappings'' \<mapsto> JDict Map.empty,
      ''joins'' \<mapsto> JList []]"

definition j1_resolved :: dict where
  "j1_resolved =
     [''name'' \<mapsto> JStr ''sales'', ''datastore'' \<mapsto> JNone,
      ''browser_options'' \<mapsto> JDict Map.empty, ''mappings'' \<mapsto> JDict Map.empty,
      ''joins'' \<mapsto> JList
         [JDict [''name'' \<mapsto> JStr ''j1'', ''master'' \<mapsto> JStr ''a.id'',
                 ''detail'' \<mapsto> JStr ''b.aid2'']]]"

definition anon_resolved :: dict where
  "anon_resolved =
     [''name'' \<mapsto> JStr ''sales'', ''datastore'' \<mapsto> JNone,
      ''browser_options'' \<mapsto> JDict Map.empty, ''mappings'' \<mapsto> JDict Map.empty,
      ''joins'' \<mapsto> JList [JDict anon_cube_join]]"

section \<open>Evaluating the definitions\<close>

lemmas merge_defs =
  merge_metadata_def merge_key_def merge_mappings_def pop_def get_default_def

lemmas resolve_defs =
  cube_metadata_def merge_datastore_def merge_browser_options_def get_def get_default_def
  resolve_rest_def pop_def resolve_mappings_def resolve_joins_def finish_joins_def Let_def

lemmas bundle_defs =
  read_model_metadata_bundle_def splitext_ext_def prefix_of_def path_join_def
  add_dimension_def add_cube_def Let_def

lemma provider_two_cubes:
  "provider_of two_cubes =
     \<lparr>metadata = two_cubes, dimensions_metadata = Map.empty,
      cubes_metadata =
        [JStr ''A'' \<mapsto> [''name'' \<mapsto> JStr ''A'',
                            ''browser_options'' \<mapsto> JDict [''safe'' \<mapsto> JInt 1]],
         JStr ''B'' \<mapsto> [''name'' \<mapsto> JStr ''B'']],
      options = [''limit'' \<mapsto> JInt 10]\<rparr>"
  by (simp add: provider_of_def init_def merge_defs two_cubes_def fun_eq_iff)

section \<open>Cube resolution writes to the stored browser options\<close>

text \<open>
  C1 (the stored metadata is never mutated by cube resolution; resolving \<^verbatim>\<open>A\<close> then
  \<^verbatim>\<open>B\<close> gives for \<^verbatim>\<open>B\<close> what resolving \<^verbatim>\<open>B\<close> alone gives). The code does
  otherwise. In the model \<open>two_cubes\<close>, resolving \<^verbatim>\<open>B\<close> alone gives it the browser
  options \<^verbatim>\<open>{"limit": 10}\<close> of the model; after \<^verbatim>\<open>A\<close> has been resolved, the same
  call gives \<^verbatim>\<open>{"limit": 10, "safe": 1}\<close>, because resolving \<^verbatim>\<open>A\<close> has written the
  browser options of \<^verbatim>\<open>A\<close> into the dictionary stored in the model. The mappings and
  the joins of the model are copied before they are updated; the browser options are
  not.
\<close>

theorem cube_metadata_writes_browser_options:
  "fst (cube_metadata (provider_of two_cubes) ''B'') =
     Inr [''name'' \<mapsto> JStr ''B'', ''datastore'' \<mapsto> JNone,
          ''browser_options'' \<mapsto> JDict [''limit'' \<mapsto> JInt 10],
          ''mappings'' \<mapsto> JDict Map.empty, ''joins'' \<mapsto> JList []]
   \<and> fst (cube_metadata (snd (cube_metadata (provider_of two_cubes) ''A'')) ''B'') =
     Inr [''name'' \<mapsto> JStr ''B'', ''datastore'' \<mapsto> JNone,
          ''browser_options'' \<mapsto> JDict [''limit'' \<mapsto> JInt 10, ''safe'' \<mapsto> JInt 1],
          ''mappings'' \<mapsto> JDict Map.empty, ''joins'' \<mapsto> JList []]
   \<and> get (metadata (provider_of two_cubes)) ''browser_options'' =
       JDict [''limit'' \<mapsto> JInt 10]
   \<and> get (metadata (snd (cube_metadata (provider_of two_cubes) ''A''))) ''browser_options'' =
       JDict [''limit'' \<mapsto> JInt 10, ''safe'' \<mapsto> JInt 1]"
  unfolding provider_two_cubes
  by (simp add: resolve_defs two_cubes_def fun_eq_iff)

section \<open>The bundle assembler accepts fragments of the same name\<close>

text \<open>
  The test for a name that is already there never succeeds against collected
  fragments: whatever the list holds, as long as its entries are objects, a fragment
  with a string for its name is appended.
\<close>

lemma name_not_among_objects: "py_in (JStr n) (JList (map JDict ds)) = Inr False"
  by auto

lemma add_dimension_never_rejects:
  assumes "model ''dimensions'' = Some (JList (map JDict ds))"
      and "desc ''name'' = Some (JStr n)"
  shows "add_dimension obj_path (JDict desc) model =
           Inr (model(''dimensions'' \<mapsto> JList (map JDict (ds @ [desc]))))"
  using assms by (simp add: add_dimension_def name_not_among_objects del: py_in.simps)

lemma add_cube_never_rejects:
  assumes "model ''cubes'' = Some (JList (map JDict cs))"
      and "desc ''name'' = Some (JStr n)"
  shows "add_cube obj_path (JDict desc) model =
           Inr (model(''cubes'' \<mapsto> JList (map JDict (cs @ [desc]))))"
  using assms by (simp add: add_cube_def name_not_among_objects del: py_in.simps)


text \<open>
  C2 (a fragment file whose \<^verbatim>\<open>name\<close> is that of an entry already collected makes the
  load fail with a duplicate-name error). The code does otherwise: it looks for the
  name among the collected entries themselves, which are objects, and a name is never
  equal to an object. The bundle \<open>twice_bundle\<close>, with two dimension files named
  \<^verbatim>\<open>time\<close> and two cube files named \<^verbatim>\<open>sales\<close>, is assembled into a model that has
  each of them twice.
\<close>

theorem bundle_with_equal_names_is_assembled:
  "read_model_metadata_bundle twice_bundle =
     Inr [''name'' \<mapsto> JStr ''m'',
          ''dimensions'' \<mapsto> JList [JDict [''name'' \<mapsto> JStr ''time''],
                                       JDict [''name'' \<mapsto> JStr ''time'']],
          ''cubes'' \<mapsto> JList [JDict [''name'' \<mapsto> JStr ''sales''],
                                  JDict [''name'' \<mapsto> JStr ''sales'']]]"
  by (simp add: bundle_defs twice_bundle_def fun_eq_iff)

section \<open>Validation raises on a bare dimension name\<close>

text \<open>
  Every document with a bare string in its dimension list makes \<^verbatim>\<open>validate\<close>
  raise, whatever else it holds and whatever the schemas say.
\<close>

lemma validate_each_raises:
  assumes "x \<in> set xs" and "check x = Inl e"
  shows "\<exists>e'. validate_each check xs = Inl e'"
  using assms
proof (induction xs)
  case Nil
  then show ?case by simp
next
  case (Cons y ys)
  show ?case
  proof (cases "check y")
    case (Inl e')
    then show ?thesis by simp
  next
    case (Inr errors)
    with Cons obtain e' where "validate_each check ys = Inl e'"
      by auto
    with Inr show ?thesis by simp
  qed
qed

lemma validate_raises_on_any_bare_dimension:
  assumes "md ''dimensions'' = Some (JList dims)" and "JStr dim \<in> set dims"
  shows "\<exists>e. validate vs (JDict md) = Inl e"
proof -
  obtain e where "validate_each (validate_dimension vs) dims = Inl e"
    using validate_each_raises [OF assms(2), of "validate_dimension vs" AttributeError]
    by auto
  with assms(1) have "validate_key ''dimensions'' (validate_dimension vs) (JDict md) = Inl e"
    by (simp add: validate_key_def)
  then show ?thesis
    by (cases "validate_model vs (JDict md)";
        cases "validate_key ''cubes'' (validate_cube vs) (JDict md)")
       (simp_all add: validate_def)
qed


text \<open>
  C3 (validation of a document with a bare string among its dimensions runs to
  completion and returns one finding of severity \<^verbatim>\<open>default\<close> that names the
  dimension). The code does otherwise: \<^verbatim>\<open>validate_model\<close> makes that finding, and
  then \<^verbatim>\<open>validate\<close> hands every entry of the dimension list to
  \<^verbatim>\<open>validate_dimension\<close>, which calls \<^verbatim>\<open>dim.get("name")\<close> on the string. Whatever
  the schemas say, \<^verbatim>\<open>validate\<close> raises \<^verbatim>\<open>AttributeError\<close> on the document
  \<^verbatim>\<open>{"dimensions": ["time"]}\<close> and returns no finding at all.
\<close>

theorem validate_raises_on_bare_dimension:
  "validate vs bare_time = Inl AttributeError
   \<and> validate_model vs bare_time =
       Inr (collect_errors ''model'' JNone (model_schema vs) bare_time @
            [ValidationError ''default'' ''model'' JNone (Some ''dimensions'')
               (DimensionNotDescribed ''time'')])"
  by (simp add: validate_def validate_model_def validate_key_def bare_time_def
        get_def get_default_def)

section \<open>The provider-default merge does what the specification says\<close>

lemma merge_key_lists:
  assumes "holds_list md k" and "holds_list other k"
  shows "merge_key k (md, other) =
           Inr (md(k := (if list_at md k @ list_at other k = [] then None
                         else Some (JList (list_at md k @ list_at other k)))),
                other(k := None))"
  using assms
  by (auto simp: merge_key_def pop_def get_default_def holds_list_def list_at_def
           split: option.splits json.splits)

lemma merge_mappings_dicts:
  assumes "holds_dict md ''mappings''" and "holds_dict other ''mappings''"
  shows "merge_mappings (md, other) =
           Inr (md(''mappings'' := (if dict_at md ''mappings'' ++ dict_at other ''mappings'' = Map.empty
                         then None
                         else Some (JDict (dict_at md ''mappings'' ++ dict_at other ''mappings'')))),
                other(''mappings'' := None))"
  using assms
  by (auto simp: merge_mappings_def pop_def get_default_def holds_dict_def dict_at_def
           split: option.splits json.splits)

lemma holds_list_upd: "k \<noteq> k' \<Longrightarrow> holds_list (d(k := v)) k' = holds_list d k'"
  by (simp add: holds_list_def)

lemma holds_dict_upd: "k \<noteq> k' \<Longrightarrow> holds_dict (d(k := v)) k' = holds_dict d k'"
  by (simp add: holds_dict_def)

lemma list_at_upd: "k \<noteq> k' \<Longrightarrow> list_at (d(k := v)) k' = list_at d k'"
  by (simp add: list_at_def)

lemma dict_at_upd: "k \<noteq> k' \<Longrightarrow> dict_at (d(k := v)) k' = dict_at d k'"
  by (simp add: dict_at_def)


lemma list_value:
  "holds_list (d(k := (if xs = [] then None else Some (JList xs)))) k \<and>
   list_at (d(k := (if xs = [] then None else Some (JList xs)))) k = xs"
  by (simp add: holds_list_def list_at_def)

lemma dict_value:
  "holds_dict (d(k := (if e = Map.empty then None else Some (JDict e)))) k \<and>
   dict_at (d(k := (if e = Map.empty then None else Some (JDict e)))) k = e"
  by (simp add: holds_dict_def dict_at_def)

lemma holds_list_cong: "d k = d' k \<Longrightarrow> holds_list d k = holds_list d' k"
  by (simp add: holds_list_def)

lemma list_at_cong: "d k = d' k \<Longrightarrow> list_at d k = list_at d' k"
  by (simp add: list_at_def)

lemma holds_dict_cong: "d k = d' k \<Longrightarrow> holds_dict d k = holds_dict d' k"
  by (simp add: holds_dict_def)

lemma dict_at_cong: "d k = d' k \<Longrightarrow> dict_at d k = dict_at d' k"
  by (simp add: dict_at_def)


text \<open>
  C9. When the defaults \<open>D\<close> and the user metadata \<open>U\<close> hold lists under
  \<^verbatim>\<open>cubes\<close>, \<^verbatim>\<open>dimensions\<close> and \<^verbatim>\<open>joins\<close> and an object under \<^verbatim>\<open>mappings\<close>
  (or nothing), the merge returns a document \<open>M\<close> whose cube list is that of \<open>D\<close>
  followed by that of \<open>U\<close>, with no check for duplicates, and likewise for the
  dimensions and the joins; whose mappings are those of \<open>D\<close> updated key by key with
  those of \<open>U\<close>; and in which every other key has the value that \<open>U\<close> gives it, or
  else the value that \<open>D\<close> gives it.
\<close>

theorem merge_metadata_spec:
  assumes "holds_list D ''cubes''" and "holds_list U ''cubes''"
      and "holds_list D ''dimensions''" and "holds_list U ''dimensions''"
      and "holds_list D ''joins''" and "holds_list U ''joins''"
      and "holds_dict D ''mappings''" and "holds_dict U ''mappings''"
  shows "\<exists>M. merge_metadata D U = Inr M
           \<and> holds_list M ''cubes''
           \<and> list_at M ''cubes'' = list_at D ''cubes'' @ list_at U ''cubes''
           \<and> holds_list M ''dimensions''
           \<and> list_at M ''dimensions'' = list_at D ''dimensions'' @ list_at U ''dimensions''
           \<and> holds_list M ''joins''
           \<and> list_at M ''joins'' = list_at D ''joins'' @ list_at U ''joins''
           \<and> holds_dict M ''mappings''
           \<and> dict_at M ''mappings'' = dict_at D ''mappings'' ++ dict_at U ''mappings''
           \<and> (\<forall>k. k \<notin> {''cubes'', ''dimensions'', ''joins'', ''mappings''} \<longrightarrow>
                  M k = (case U k of Some v \<Rightarrow> Some v | None \<Rightarrow> D k))"
proof -
  define cs where "cs = list_at D ''cubes'' @ list_at U ''cubes''"
  define ds where "ds = list_at D ''dimensions'' @ list_at U ''dimensions''"
  define js where "js = list_at D ''joins'' @ list_at U ''joins''"
  define ms where "ms = dict_at D ''mappings'' ++ dict_at U ''mappings''"
  define D1 where "D1 = D(''cubes'' := (if cs = [] then None else Some (JList cs)))"
  define D2 where "D2 = D1(''dimensions'' := (if ds = [] then None else Some (JList ds)))"
  define D3 where "D3 = D2(''joins'' := (if js = [] then None else Some (JList js)))"
  define D4 where "D4 = D3(''mappings'' := (if ms = Map.empty then None else Some (JDict ms)))"
  define U1 where "U1 = U(''cubes'' := None)"
  define U2 where "U2 = U1(''dimensions'' := None)"
  define U3 where "U3 = U2(''joins'' := None)"
  define U4 where "U4 = U3(''mappings'' := None)"
  define M where "M = D4 ++ U4"
  have s1: "merge_key ''cubes'' (D, U) = Inr (D1, U1)"
    using merge_key_lists [OF assms(1,2)] by (simp only: D1_def U1_def cs_def)
  have "holds_list D1 ''dimensions''" "holds_list U1 ''dimensions''"
       "list_at D1 ''dimensions'' = list_at D ''dimensions''"
       "list_at U1 ''dimensions'' = list_at U ''dimensions''"
    using assms(3,4) by (simp_all add: D1_def U1_def holds_list_upd list_at_upd)
  then have s2: "merge_key ''dimensions'' (D1, U1) = Inr (D2, U2)"
    using merge_key_lists [of D1 "''dimensions''" U1] by (simp only: D2_def U2_def ds_def)
  have "holds_list D2 ''joins''" "holds_list U2 ''joins''"
       "list_at D2 ''joins'' = list_at D ''joins''"
       "list_at U2 ''joins'' = list_at U ''joins''"
    using assms(5,6)
    by (simp_all add: D2_def D1_def U2_def U1_def holds_list_upd list_at_upd)
  then have s3: "merge_key ''joins'' (D2, U2) = Inr (D3, U3)"
    using merge_key_lists [of D2 "''joins''" U2] by (simp only: D3_def U3_def js_def)
  have "holds_dict D3 ''mappings''" "holds_dict U3 ''mappings''"
       "dict_at D3 ''mappings'' = dict_at D ''mappings''"
       "dict_at U3 ''mappings'' = dict_at U ''mappings''"
    using assms(7,8)
    by (simp_all add: D3_def D2_def D1_def U3_def U2_def U1_def holds_dict_upd dict_at_upd)
  then have s4: "merge_mappings (D3, U3) = Inr (D4, U4)"
    using merge_mappings_dicts [of D3 U3] by (simp only: D4_def U4_def ms_def)
  have run: "merge_metadata D U = Inr M"
    by (simp add: merge_metadata_def s1 s2 s3 s4 M_def)
  have U4_None: "U4 ''cubes'' = None" "U4 ''dimensions'' = None" "U4 ''joins'' = None"
      "U4 ''mappings'' = None"
    by (simp_all add: U4_def U3_def U2_def U1_def)
  have c: "M ''cubes'' = D1 ''cubes''"
    by (simp add: M_def map_add_def U4_None D4_def D3_def D2_def)
  have d: "M ''dimensions'' = D2 ''dimensions''"
    by (simp add: M_def map_add_def U4_None D4_def D3_def)
  have j: "M ''joins'' = D3 ''joins''"
    by (simp add: M_def map_add_def U4_None D4_def)
  have m: "M ''mappings'' = D4 ''mappings''"
    by (simp add: M_def map_add_def U4_None)
  have rest: "M k = (case U k of Some v \<Rightarrow> Some v | None \<Rightarrow> D k)"
    if "k \<notin> {''cubes'', ''dimensions'', ''joins'', ''mappings''}" for k
  proof -
    have "U4 k = U k" "D4 k = D k"
      using that by (simp_all add: U4_def U3_def U2_def U1_def D4_def D3_def D2_def D1_def)
    then show ?thesis
      by (simp add: M_def map_add_def split: option.splits)
  qed
  have "holds_list M ''cubes'' \<and> list_at M ''cubes'' = cs"
    using list_value [of D "''cubes''" cs]
    by (simp add: holds_list_cong [of M "''cubes''" D1, OF c]
          list_at_cong [of M "''cubes''" D1, OF c] D1_def)
  moreover have "holds_list M ''dimensions'' \<and> list_at M ''dimensions'' = ds"
    using list_value [of D1 "''dimensions''" ds]
    by (simp add: holds_list_cong [of M "''dimensions''" D2, OF d]
          list_at_cong [of M "''dimensions''" D2, OF d] D2_def)
  moreover have "holds_list M ''joins'' \<and> list_at M ''joins'' = js"
    using list_value [of D2 "''joins''" js]
    by (simp add: holds_list_cong [of M "''joins''" D3, OF j]
          list_at_cong [of M "''joins''" D3, OF j] D3_def)
  moreover have "holds_dict M ''mappings'' \<and> dict_at M ''mappings'' = ms"
    using dict_value [of D3 "''mappings''" ms]
    by (simp add: holds_dict_cong [of M "''mappings''" D4, OF m]
          dict_at_cong [of M "''mappings''" D4, OF m] D4_def)
  ultimately show ?thesis
    using run rest unfolding cs_def ds_def js_def ms_def by blast
qed

theorem merge_metadata_spec_witness:
  "holds_list some_defaults ''cubes'' \<and> holds_list some_user ''cubes''
   \<and> holds_list some_defaults ''dimensions'' \<and> holds_list some_user ''dimensions''
   \<and> holds_list some_defaults ''joins'' \<and> holds_list some_user ''joins''
   \<and> holds_dict some_defaults ''mappings'' \<and> holds_dict some_user ''mappings''
   \<and> merge_metadata some_defaults some_user = Inr merged_example
   \<and> list_at merged_example ''cubes'' =
       list_at some_defaults ''cubes'' @ list_at some_user ''cubes''
   \<and> list_at merged_example ''dimensions'' = []
   \<and> list_at merged_example ''joins'' = []
   \<and> dict_at merged_example ''mappings'' =
       dict_at some_defaults ''mappings'' ++ dict_at some_user ''mappings''
   \<and> merged_example ''label'' = Some (JStr ''mine'')
   \<and> merged_example ''locale'' = Some (JStr ''en'')"
proof -
  have h: "holds_list some_defaults ''cubes''" "holds_list some_user ''cubes''"
    "holds_list some_defaults ''dimensions''" "holds_list some_user ''dimensions''"
    "holds_list some_defaults ''joins''" "holds_list some_user ''joins''"
    "holds_dict some_defaults ''mappings''" "holds_dict some_user ''mappings''"
    by (simp_all add: holds_list_def holds_dict_def some_defaults_def some_user_def)
  have run: "merge_metadata some_defaults some_user = Inr merged_example"
    by (auto simp: merge_defs some_defaults_def some_user_def merged_example_def fun_eq_iff)
  from merge_metadata_spec [OF h] run
  have "list_at merged_example ''cubes'' =
          list_at some_defaults ''cubes'' @ list_at some_user ''cubes''"
    and "list_at merged_example ''dimensions'' =
          list_at some_defaults ''dimensions'' @ list_at some_user ''dimensions''"
    and "list_at merged_example ''joins'' =
          list_at some_defaults ''joins'' @ list_at some_user ''joins''"
    and "dict_at merged_example ''mappings'' =
          dict_at some_defaults ''mappings'' ++ dict_at some_user ''mappings''"
    and "merged_example ''label'' =
          (case some_user ''label'' of Some v \<Rightarrow> Some v | None \<Rightarrow> some_defaults ''label'')"
    and "merged_example ''locale'' =
          (case some_user ''locale'' of Some v \<Rightarrow> Some v | None \<Rightarrow> some_defaults ''locale'')"
    by auto
  moreover have "list_at some_defaults ''dimensions'' = []" "list_at some_user ''dimensions'' = []"
    "list_at some_defaults ''joins'' = []" "list_at some_user ''joins'' = []"
    "some_user ''label'' = Some (JStr ''mine'')" "some_user ''locale'' = None"
    "some_defaults ''locale'' = Some (JStr ''en'')"
    by (simp_all add: list_at_def some_defaults_def some_user_def)
  ultimately show ?thesis
    using h run by simp
qed

section \<open>The course of a cube resolution\<close>

text \<open>
  What every call of \<^verbatim>\<open>cube_metadata\<close> for a known cube goes through: the browser
  options, the mappings, and then the joins, which alone decide the result when the
  option and mapping blocks are objects.
\<close>

lemma ebind_Inr: "ebind m f = Inr r \<longleftrightarrow> (\<exists>v. m = Inr v \<and> f v = Inr r)"
  by (cases m) auto

lemma ebind_Inl: "ebind m f = Inl e \<longleftrightarrow> m = Inl e \<or> (\<exists>v. m = Inr v \<and> f v = Inl e)"
  by (cases m) auto

lemma finish_joins_Inr:
  assumes "finish_joins model nm cj rest = Inr r"
  shows "\<exists>js. r = rest(''joins'' \<mapsto> js)"
  using assms by (auto simp: finish_joins_def ebind_Inr)

lemma resolve_rest_Inr:
  assumes "resolve_rest model name cb = Inr r"
  shows "\<exists>m js. r = cb(''mappings'' \<mapsto> m, ''joins'' \<mapsto> js)"
proof -
  from assms obtain m where
    fin: "finish_joins model (JStr name) (get_default (cb(''mappings'' \<mapsto> m)) ''joins'' (JList []))
            (cb(''mappings'' \<mapsto> m, ''joins'' := None)) = Inr r"
    by (auto simp: resolve_rest_def pop_def Let_def ebind_Inr)
  from finish_joins_Inr [OF fin] show ?thesis by auto
qed

lemma cube_metadata_found:
  assumes "cubes_metadata p (JStr name) = Some c"
  shows "fst (cube_metadata p name) =
           ebind (merge_browser_options (metadata p) (merge_datastore (metadata p) c)) (\<lambda>r.
             resolve_rest (snd r) name ((merge_datastore (metadata p) c)(''browser_options'' \<mapsto> fst r)))"
  using assms by (simp add: cube_metadata_def Let_def split: sum.splits)

lemma merge_datastore_value:
  "merge_datastore model c ''datastore'' =
     Some (if truthy (get c ''datastore'') then get c ''datastore'' else get model ''datastore'')"
  by (auto simp: merge_datastore_def get_def get_default_def split: option.splits)

lemma merge_datastore_other:
  "k \<noteq> ''datastore'' \<Longrightarrow> merge_datastore model c k = c k"
  by (simp add: merge_datastore_def)

lemma resolve_joins_skip:
  "\<not> (truthy cj \<and> truthy (get_default model ''joins'' (JList []))) \<Longrightarrow>
     resolve_joins model nm cj = Inr (cj, nm)"
  by (auto simp: resolve_joins_def Let_def)

lemma finish_joins_cong:
  "model' ''joins'' = model ''joins'' \<Longrightarrow>
     finish_joins model' nm cj rest = finish_joins model nm cj rest"
  by (simp add: finish_joins_def resolve_joins_def get_default_def)

lemma merge_browser_options_frame:
  assumes "merge_browser_options model cb = Inr (bo, model')"
  shows "k \<noteq> ''browser_options'' \<Longrightarrow> model' k = model k"
  using assms
  by (auto simp: merge_browser_options_def Let_def ebind_Inr split: if_splits)

lemma merge_browser_options_ok:
  assumes "holds_dict model ''browser_options''" and "holds_dict cb ''browser_options''"
  shows "\<exists>bo model'. merge_browser_options model cb = Inr (bo, model')"
  using assms
  by (auto simp: merge_browser_options_def Let_def holds_dict_def get_def get_default_def
           split: option.splits json.splits)

lemma resolve_mappings_ok:
  assumes "holds_dict model ''mappings''" and "holds_dict cb ''mappings''"
  shows "\<exists>m. resolve_mappings model (get_default cb ''mappings'' (JDict Map.empty)) = Inr m"
  using assms
  by (auto simp: resolve_mappings_def Let_def holds_dict_def get_def get_default_def
           split: option.splits json.splits)

lemma resolve_rest_joins:
  assumes "resolve_mappings model (get_default cb ''mappings'' (JDict Map.empty)) = Inr m"
  shows "resolve_rest model name cb =
           finish_joins model (JStr name) (get_default cb ''joins'' (JList []))
             (cb(''mappings'' \<mapsto> m, ''joins'' := None))"
  using assms by (simp add: resolve_rest_def pop_def Let_def get_default_def)

lemma cube_metadata_joins_ok:
  assumes found: "cubes_metadata p (JStr name) = Some c"
      and ok: "blocks_ok (metadata p) c"
  shows "\<exists>rest. fst (cube_metadata p name) =
           finish_joins (metadata p) (JStr name) (get_default c ''joins'' (JList [])) rest"
proof -
  let ?c0 = "merge_datastore (metadata p) c"
  have c0: "holds_dict ?c0 ''browser_options''" "holds_dict ?c0 ''mappings''"
    using ok by (simp_all add: blocks_ok_def holds_dict_def merge_datastore_other)
  from ok c0 obtain bo model' where
    bo: "merge_browser_options (metadata p) ?c0 = Inr (bo, model')"
    using merge_browser_options_ok [of "metadata p" ?c0] by (auto simp: blocks_ok_def)
  have same: "model' ''mappings'' = metadata p ''mappings''" "model' ''joins'' = metadata p ''joins''"
    using merge_browser_options_frame [OF bo] by simp_all
  let ?c1 = "?c0(''browser_options'' \<mapsto> bo)"
  have "holds_dict model' ''mappings''" "holds_dict ?c1 ''mappings''"
    using ok c0 same by (simp_all add: blocks_ok_def holds_dict_def)
  then obtain m where m: "resolve_mappings model' (get_default ?c1 ''mappings'' (JDict Map.empty)) = Inr m"
    using resolve_mappings_ok by blast
  have j: "get_default ?c1 ''joins'' (JList []) = get_default c ''joins'' (JList [])"
    by (simp add: get_default_def merge_datastore_other)
  have "fst (cube_metadata p name) = resolve_rest model' name ?c1"
    by (simp add: cube_metadata_found [OF found] bo)
  also have "\<dots> = finish_joins model' (JStr name) (get_default c ''joins'' (JList []))
                     (?c1(''mappings'' \<mapsto> m, ''joins'' := None))"
    by (simp only: resolve_rest_joins [OF m] j)
  finally show ?thesis
    by (auto simp: finish_joins_cong [of model' "metadata p", OF same(2)])
qed

lemma cube_metadata_joins_Inr:
  assumes found: "cubes_metadata p (JStr name) = Some c"
      and r: "fst (cube_metadata p name) = Inr r"
  shows "\<exists>rest. finish_joins (metadata p) (JStr name) (get_default c ''joins'' (JList [])) rest =
           Inr r"
proof -
  let ?c0 = "merge_datastore (metadata p) c"
  from r obtain bo model' where
    bo: "merge_browser_options (metadata p) ?c0 = Inr (bo, model')"
    and rest: "resolve_rest model' name (?c0(''browser_options'' \<mapsto> bo)) = Inr r"
    by (auto simp: cube_metadata_found [OF found] ebind_Inr)
  let ?c1 = "?c0(''browser_options'' \<mapsto> bo)"
  from rest obtain m where
    m: "resolve_mappings model' (get_default ?c1 ''mappings'' (JDict Map.empty)) = Inr m"
    by (auto simp: resolve_rest_def pop_def Let_def ebind_Inr)
  have same: "model' ''joins'' = metadata p ''joins''"
    using merge_browser_options_frame [OF bo] by simp
  have j: "get_default ?c1 ''joins'' (JList []) = get_default c ''joins'' (JList [])"
    by (simp add: get_default_def merge_datastore_other)
  have "finish_joins model' (JStr name) (get_default c ''joins'' (JList []))
          (?c1(''mappings'' \<mapsto> m, ''joins'' := None)) = Inr r"
    using rest by (simp only: resolve_rest_joins [OF m] j)
  then show ?thesis
    by (auto simp: finish_joins_cong [of model' "metadata p", OF same])
qed

lemma validate_joins_complete:
  "list_all complete_join js \<Longrightarrow> validate_joins nm (map JDict js) = Inr ()"
  by (induction js) (simp_all add: complete_join_def)

lemma validate_joins_incomplete:
  "\<not> list_all complete_join js \<Longrightarrow>
     \<exists>jn. validate_joins nm (map JDict js) = Inl (ModelError (NoMasterInJoin nm jn))
        \<or> validate_joins nm (map JDict js) = Inl (ModelError (NoDetailInJoin nm jn))"
  by (induction js) (auto simp: complete_join_def)


lemma provider_nameless_model:
  "provider_of nameless_model =
     \<lparr>metadata = nameless_model, dimensions_metadata = Map.empty,
      cubes_metadata = [JStr ''sales'' \<mapsto> plain_cube], options = Map.empty\<rparr>"
  by (simp add: provider_of_def init_def merge_defs nameless_model_def plain_cube_def fun_eq_iff)

lemma provider_missing_name_model:
  "provider_of missing_name_model =
     \<lparr>metadata = missing_name_model, dimensions_metadata = Map.empty,
      cubes_metadata = [JStr ''sales'' \<mapsto> j1_cube], options = Map.empty\<rparr>"
  by (simp add: provider_of_def init_def merge_defs missing_name_model_def j1_cube_def fun_eq_iff)

lemma provider_defective_model:
  "provider_of defective_model =
     \<lparr>metadata = defective_model, dimensions_metadata = Map.empty,
      cubes_metadata = [JStr ''sales'' \<mapsto> j1_cube], options = Map.empty\<rparr>"
  by (simp add: provider_of_def init_def merge_defs defective_model_def j1_cube_def fun_eq_iff)

lemma resolve_nameless_model:
  "fst (cube_metadata (provider_of nameless_model) ''sales'') = Inr plain_resolved"
  unfolding provider_nameless_model
  by (simp add: resolve_defs nameless_model_def plain_cube_def plain_resolved_def fun_eq_iff)


section \<open>The datastore of a resolved cube\<close>

text \<open>
  C10. In the metadata that \<^verbatim>\<open>cube_metadata\<close> returns, the \<^verbatim>\<open>datastore\<close> is the
  cube's own value when that value is true, and otherwise (the key is absent, or holds
  \<^verbatim>\<open>None\<close>, the empty string or another false value) the value that the model has
  under \<^verbatim>\<open>datastore\<close>.
\<close>

theorem cube_metadata_datastore:
  assumes "cubes_metadata p (JStr name) = Some c"
      and "fst (cube_metadata p name) = Inr r"
  shows "r ''datastore'' =
           Some (if truthy (get c ''datastore'') then get c ''datastore''
                 else get (metadata p) ''datastore'')"
proof -
  from assms obtain bo model' where
    "resolve_rest model' name ((merge_datastore (metadata p) c)(''browser_options'' \<mapsto> bo)) = Inr r"
    by (auto simp: cube_metadata_found ebind_Inr)
  from resolve_rest_Inr [OF this] obtain m js where
    "r = (merge_datastore (metadata p) c)(''browser_options'' \<mapsto> bo, ''mappings'' \<mapsto> m, ''joins'' \<mapsto> js)"
    by auto
  then have "r ''datastore'' = merge_datastore (metadata p) c ''datastore''"
    by simp
  then show ?thesis
    by (simp only: merge_datastore_value)
qed

theorem cube_metadata_datastore_witness:
  "cubes_metadata (provider_of nameless_model) (JStr ''sales'') = Some plain_cube
   \<and> fst (cube_metadata (provider_of nameless_model) ''sales'') = Inr plain_resolved
   \<and> get plain_cube ''datastore'' = JStr []
   \<and> get (metadata (provider_of nameless_model)) ''datastore'' = JStr ''main''
   \<and> plain_resolved ''datastore'' = Some (JStr ''main'')"
proof -
  have found: "cubes_metadata (provider_of nameless_model) (JStr ''sales'') = Some plain_cube"
    by (simp add: provider_nameless_model)
  have vals: "get plain_cube ''datastore'' = JStr []"
    "get (metadata (provider_of nameless_model)) ''datastore'' = JStr ''main''"
    unfolding provider_nameless_model
    by (simp_all add: get_def get_default_def plain_cube_def nameless_model_def)
  from cube_metadata_datastore [OF found resolve_nameless_model] vals
  have "plain_resolved ''datastore'' = Some (JStr ''main'')"
    by simp
  with found vals resolve_nameless_model show ?thesis
    by simp
qed


section \<open>Unknown names\<close>

text \<open>
  C6 as the code has it by design. For a name that is not a cube of the model,
  \<^verbatim>\<open>cube_options\<close> raises nothing: the test \<^verbatim>\<open>if cube_name in self.cubes_metadata\<close>
  skips the cube's part and the call returns the options of the model.
\<close>

theorem cube_options_unknown_cube:
  assumes "cubes_metadata p (JStr n) = None"
  shows "cube_options p n = Inr (options p)"
  using assms by (simp add: cube_options_def)

theorem cube_options_unknown_cube_witness:
  "cubes_metadata (provider_of nameless_model) (JStr ''costs'') = None
   \<and> cube_options (provider_of nameless_model) ''costs'' =
       Inr (options (provider_of nameless_model))"
proof -
  have none: "cubes_metadata (provider_of nameless_model) (JStr ''costs'') = None"
    by (simp add: provider_nameless_model)
  from cube_options_unknown_cube [OF none] none show ?thesis
    by simp
qed

text \<open>
  C6 as the specification has it fails: in the model \<open>two_cubes\<close> there is no cube
  \<^verbatim>\<open>C\<close>, and \<^verbatim>\<open>cube_options("C")\<close> returns the options \<^verbatim>\<open>{"limit": 10}\<close> of the
  model.
\<close>

theorem cube_options_unknown_cube_counterexample:
  "cubes_metadata (provider_of two_cubes) (JStr ''C'') = None
   \<and> cube_options (provider_of two_cubes) ''C'' = Inr [''limit'' \<mapsto> JInt 10]"
  by (simp add: provider_two_cubes cube_options_def)

text \<open>
  The other accessor does fail on an unknown name, but not with the error of the
  module: \<^verbatim>\<open>dimension_metadata\<close> lets the \<^verbatim>\<open>KeyError\<close> of the dictionary lookup
  escape, where \<^verbatim>\<open>StaticModelProvider.dimension\<close> turns the same miss into
  \<^verbatim>\<open>NoSuchDimensionError\<close> and \<^verbatim>\<open>cube_metadata\<close> raises \<^verbatim>\<open>NoSuchCubeError\<close> for
  an unknown cube.
\<close>

lemma dimension_metadata_lets_KeyError_escape:
  assumes "dimensions_metadata p (JStr d) = None"
  shows "dimension_metadata p d = Inl (KeyError (JStr d))"
    and "dimension create_dimension p d templates = Inl (NoSuchDimensionError d)"
  using assms by (simp_all add: dimension_metadata_def dimension_def)

lemma cube_metadata_unknown_cube:
  assumes "cubes_metadata p (JStr n) = None"
  shows "cube_metadata p n = (Inl (NoSuchCubeError n), p)"
  using assms by (simp add: cube_metadata_def)

section \<open>No name index when one side has no joins\<close>

text \<open>
  C8. When the cube has no joins of its own, or the model has none, the name index of
  the model joins is not built, so a model join without a name does no harm: the
  resolved joins are the cube's joins unchanged, provided each of them carries
  \<^verbatim>\<open>master\<close> and \<^verbatim>\<open>detail\<close>, and otherwise the call fails for the first join that
  lacks one of them. In particular a cube without joins is resolved, with an empty
  join list, whatever the joins of the model are. (The option and mapping blocks of
  model and cube are objects, and the cube's joins are a list of objects.)
\<close>

theorem no_join_index_when_a_side_is_empty:
  assumes found: "cubes_metadata p (JStr name) = Some c"
      and ok: "blocks_ok (metadata p) c"
      and cj: "get_default c ''joins'' (JList []) = JList (map JDict cjs)"
      and side: "cjs = [] \<or> \<not> truthy (get_default (metadata p) ''joins'' (JList []))"
  shows "if list_all complete_join cjs
         then \<exists>r. fst (cube_metadata p name) = Inr r
                \<and> r ''joins'' = Some (JList (map JDict cjs))
         else \<exists>jn. fst (cube_metadata p name) =
                      Inl (ModelError (NoMasterInJoin (JStr name) jn))
                  \<or> fst (cube_metadata p name) =
                      Inl (ModelError (NoDetailInJoin (JStr name) jn))"
proof -
  obtain rest where rest: "fst (cube_metadata p name) =
      finish_joins (metadata p) (JStr name) (JList (map JDict cjs)) rest"
    using cube_metadata_joins_ok [OF found ok] cj by auto
  have skip: "resolve_joins (metadata p) (JStr name) (JList (map JDict cjs)) =
                Inr (JList (map JDict cjs), JStr name)"
    using side by (intro resolve_joins_skip) auto
  have fin: "fst (cube_metadata p name) =
               ebind (validate_joins (JStr name) (map JDict cjs))
                 (\<lambda>u. Inr (rest(''joins'' \<mapsto> JList (map JDict cjs))))"
    by (simp add: rest finish_joins_def skip)
  show ?thesis
  proof (cases "list_all complete_join cjs")
    case True
    then show ?thesis
      by (simp add: fin validate_joins_complete)
  next
    case False
    from validate_joins_incomplete [OF False, of "JStr name"] False show ?thesis
      by (auto simp: fin)
  qed
qed

theorem no_join_index_when_a_side_is_empty_witness:
  "cubes_metadata (provider_of nameless_model) (JStr ''sales'') = Some plain_cube
   \<and> blocks_ok (metadata (provider_of nameless_model)) plain_cube
   \<and> get (metadata (provider_of nameless_model)) ''joins'' = JList [JDict nameless_join]
   \<and> nameless_join ''name'' = None
   \<and> get_default plain_cube ''joins'' (JList []) = JList []
   \<and> fst (cube_metadata (provider_of nameless_model) ''sales'') = Inr plain_resolved
   \<and> plain_resolved ''joins'' = Some (JList [])"
proof -
  have found: "cubes_metadata (provider_of nameless_model) (JStr ''sales'') = Some plain_cube"
    by (simp add: provider_nameless_model)
  have "metadata (provider_of nameless_model) = nameless_model"
    by (simp add: provider_nameless_model)
  then have ok: "blocks_ok (metadata (provider_of nameless_model)) plain_cube"
    by (simp add: blocks_ok_def holds_dict_def nameless_model_def plain_cube_def)
  have cj: "get_default plain_cube ''joins'' (JList []) = JList (map JDict [])"
    by (simp add: get_default_def plain_cube_def)
  have model: "get (metadata (provider_of nameless_model)) ''joins'' = JList [JDict nameless_join]"
    "nameless_join ''name'' = None"
    unfolding provider_nameless_model
    by (simp_all add: get_def get_default_def nameless_model_def nameless_join_def)
  from no_join_index_when_a_side_is_empty [OF found ok cj] resolve_nameless_model
  have "plain_resolved ''joins'' = Some (JList [])"
    by simp
  with found ok cj model resolve_nameless_model show ?thesis
    by simp
qed


section \<open>The name index of the model joins\<close>

lemma named_join_name: "named_join m \<Longrightarrow> m ''name'' = Some (get m ''name'')"
  by (auto simp: named_join_def get_def get_default_def)

lemma model_join_map_step:
  assumes "named_join m" and "index (get m ''name'') = None"
  shows "model_join_map (JDict m # js) index = model_join_map js (index(get m ''name'' \<mapsto> m))"
  using assms named_join_name [OF assms(1)] by (simp add: named_join_def)

lemma model_join_map_prefix:
  assumes "list_all named_join pre"
      and "distinct (map (\<lambda>m. get m ''name'') pre)"
      and "list_all (\<lambda>m. index (get m ''name'') = None) pre"
  shows "model_join_map (map JDict pre @ js) index =
           model_join_map js (foldl (\<lambda>a m. a(get m ''name'' \<mapsto> m)) index pre)"
  using assms
proof (induction pre arbitrary: index)
  case Nil
  then show ?case by simp
next
  case (Cons m pre)
  let ?index = "index(get m ''name'' \<mapsto> m)"
  have m: "named_join m" "index (get m ''name'') = None"
    using Cons.prems by simp_all
  have pre: "list_all named_join pre" "distinct (map (\<lambda>m. get m ''name'') pre)"
    using Cons.prems by simp_all
  have fresh: "list_all (\<lambda>m'. ?index (get m' ''name'') = None) pre"
    using Cons.prems(2,3) by (auto simp: list_all_iff image_iff)
  have "model_join_map (map JDict (m # pre) @ js) index =
          model_join_map (map JDict pre @ js) ?index"
    using model_join_map_step [of m index "map JDict pre @ js", OF m]
    by (simp only: list.map append_Cons)
  also have "\<dots> = model_join_map js (foldl (\<lambda>a m. a(get m ''name'' \<mapsto> m)) ?index pre)"
    by (rule Cons.IH [OF pre fresh])
  finally show ?case
    by (simp only: foldl_Cons)
qed

lemma index_lookup:
  assumes "list_all named_join ms" and "distinct (map (\<lambda>m. get m ''name'') ms)"
  shows "foldl (\<lambda>a m. a(get m ''name'' \<mapsto> m)) index ms k =
           (case find (\<lambda>m. m ''name'' = Some k) ms of Some m \<Rightarrow> Some m | None \<Rightarrow> index k)"
  using assms
proof (induction ms arbitrary: index)
  case Nil
  then show ?case by simp
next
  case (Cons m ms)
  have name: "m ''name'' = Some (get m ''name'')"
    using Cons.prems(1) by (simp add: named_join_name)
  show ?case
  proof (cases "get m ''name'' = k")
    case True
    have "x ''name'' \<noteq> Some k" if "x \<in> set ms" for x
    proof
      assume "x ''name'' = Some k"
      then have "get x ''name'' = get m ''name''"
        using True by (simp add: get_def get_default_def)
      with that Cons.prems(2) show False
        by (auto simp: image_iff)
    qed
    then have "find (\<lambda>m. m ''name'' = Some k) ms = None"
      by (simp add: find_None_iff)
    with Cons True name show ?thesis by simp
  next
    case False
    with Cons name show ?thesis by simp
  qed
qed

lemma model_join_map_Inr:
  assumes "model_join_map (map JDict ms) index = Inr result"
  shows "list_all named_join ms \<and> distinct (map (\<lambda>m. get m ''name'') ms)
         \<and> list_all (\<lambda>m. index (get m ''name'') = None) ms
         \<and> result = foldl (\<lambda>a m. a(get m ''name'' \<mapsto> m)) index ms"
  using assms
proof (induction ms arbitrary: index)
  case Nil
  then show ?case by simp
next
  case (Cons m ms)
  from Cons.prems obtain n where n: "m ''name'' = Some n" "hashable n" "index n = None"
    and run: "model_join_map (map JDict ms) (index(n \<mapsto> m)) = Inr result"
    by (cases "m ''name''") (auto split: if_splits)
  have g: "get m ''name'' = n"
    using n by (simp add: get_def get_default_def)
  from Cons.IH [OF run] g n show ?case
    by (auto simp: named_join_def list_all_iff split: if_splits)
qed

lemma model_join_map_missing:
  assumes "j ''name'' = None"
  shows "model_join_map (JDict j # js) index = Inl (ModelError MissingJoinName)"
  using assms by simp

lemma model_join_map_duplicate:
  assumes "j ''name'' = Some n" and "hashable n" and "index n \<noteq> None"
  shows "model_join_map (JDict j # js) index = Inl (ModelError (DuplicateJoinName n))"
  using assms by auto

lemma index_dom:
  "foldl (\<lambda>a m. a(get m ''name'' \<mapsto> m)) index ms k \<noteq> None \<longleftrightarrow>
     index k \<noteq> None \<or> k \<in> (\<lambda>m. get m ''name'') ` set ms"
  by (induction ms arbitrary: index) auto

lemma finish_joins_index_error:
  assumes "get_default model ''joins'' (JList []) = JList (map JDict ms)"
      and "ms \<noteq> []" and "truthy cj"
      and "model_join_map (map JDict ms) Map.empty = Inl e"
  shows "finish_joins model nm cj rest = Inl e"
  using assms by (simp add: finish_joins_def resolve_joins_def)


text \<open>
  C7 as the code has it. When the model and the cube both have joins, the index is
  built from the model joins in their order, and the call fails at the first model
  join that has no name or has the name of an earlier one: with the missing-name error
  in the first case and the duplicate-name error in the second. Here \<open>pre\<close> are the
  model joins before that join \<open>j\<close>, all named and with different names.
\<close>

theorem join_index_first_defect:
  assumes found: "cubes_metadata p (JStr name) = Some c"
      and ok: "blocks_ok (metadata p) c"
      and mj: "get_default (metadata p) ''joins'' (JList []) = JList (map JDict (pre @ j # post))"
      and cj: "truthy (get_default c ''joins'' (JList []))"
      and pre: "list_all named_join pre" "distinct (map (\<lambda>m. get m ''name'') pre)"
  shows "(j ''name'' = None \<longrightarrow>
            fst (cube_metadata p name) = Inl (ModelError MissingJoinName))
       \<and> (\<forall>n. j ''name'' = Some n \<and> n \<in> (\<lambda>m. get m ''name'') ` set pre \<longrightarrow>
            fst (cube_metadata p name) = Inl (ModelError (DuplicateJoinName n)))"
proof -
  let ?index = "foldl (\<lambda>a m. a(get m ''name'' \<mapsto> m)) Map.empty pre"
  have run: "model_join_map (map JDict (pre @ j # post)) Map.empty =
               model_join_map (JDict j # map JDict post) ?index"
    using model_join_map_prefix [of pre Map.empty "JDict j # map JDict post"] pre
    by (simp add: list_all_iff)
  obtain rest where rest: "fst (cube_metadata p name) =
      finish_joins (metadata p) (JStr name) (get_default c ''joins'' (JList [])) rest"
    using cube_metadata_joins_ok [OF found ok] by blast
  have fails: "fst (cube_metadata p name) = Inl e"
    if "model_join_map (JDict j # map JDict post) ?index = Inl e" for e
    using finish_joins_index_error [OF mj _ cj] that run rest by simp
  have "fst (cube_metadata p name) = Inl (ModelError MissingJoinName)" if "j ''name'' = None"
    using fails model_join_map_missing [of j "map JDict post" ?index, OF that] by simp
  moreover have "fst (cube_metadata p name) = Inl (ModelError (DuplicateJoinName n))"
    if n: "j ''name'' = Some n" and "n \<in> (\<lambda>m. get m ''name'') ` set pre" for n
  proof -
    from that(2) obtain m where m: "m \<in> set pre" "n = get m ''name''"
      by auto
    with pre(1) have "hashable n"
      by (auto simp: list_all_iff named_join_def)
    moreover have "?index n \<noteq> None"
      using that(2) index_dom [of Map.empty pre n] by simp
    ultimately show ?thesis
      using fails model_join_map_duplicate [of j n ?index "map JDict post", OF n] by simp
  qed
  ultimately show ?thesis
    by blast
qed

theorem join_index_first_defect_witness:
  "cubes_metadata (provider_of missing_name_model) (JStr ''sales'') = Some j1_cube
   \<and> blocks_ok (metadata (provider_of missing_name_model)) j1_cube
   \<and> get_default (metadata (provider_of missing_name_model)) ''joins'' (JList []) =
       JList (map JDict ([j1_model_join] @ nameless_join # []))
   \<and> truthy (get_default j1_cube ''joins'' (JList []))
   \<and> list_all named_join [j1_model_join]
   \<and> distinct (map (\<lambda>m. get m ''name'') [j1_model_join])
   \<and> nameless_join ''name'' = None
   \<and> fst (cube_metadata (provider_of missing_name_model) ''sales'') =
       Inl (ModelError MissingJoinName)"
proof -
  have found: "cubes_metadata (provider_of missing_name_model) (JStr ''sales'') = Some j1_cube"
    by (simp add: provider_missing_name_model)
  have "metadata (provider_of missing_name_model) = missing_name_model"
    by (simp add: provider_missing_name_model)
  then have ok: "blocks_ok (metadata (provider_of missing_name_model)) j1_cube"
    by (simp add: blocks_ok_def holds_dict_def missing_name_model_def j1_cube_def)
  have mj: "get_default (metadata (provider_of missing_name_model)) ''joins'' (JList []) =
              JList (map JDict ([j1_model_join] @ nameless_join # []))"
    unfolding provider_missing_name_model
    by (simp add: get_default_def missing_name_model_def)
  have cj: "truthy (get_default j1_cube ''joins'' (JList []))"
    by (simp add: get_default_def j1_cube_def)
  have pre: "list_all named_join [j1_model_join]"
    "distinct (map (\<lambda>m. get m ''name'') [j1_model_join])"
    by (simp_all add: named_join_def get_def get_default_def j1_model_join_def)
  have j: "nameless_join ''name'' = None"
    by (simp add: nameless_join_def)
  from join_index_first_defect [OF found ok mj cj pre] j
  have "fst (cube_metadata (provider_of missing_name_model) ''sales'') =
          Inl (ModelError MissingJoinName)"
    by simp
  with found ok mj cj pre j show ?thesis
    by simp
qed


text \<open>
  C7 as the specification has it fails where both defects are present: in
  \<open>defective_model\<close> the third model join has no name, but the second repeats the
  name of the first, and the call fails with the duplicate-name error.
\<close>

theorem missing_join_name_counterexample:
  "get (metadata (provider_of defective_model)) ''joins'' =
     JList [JDict j1_model_join, JDict j1_model_join, JDict nameless_join]
   \<and> nameless_join ''name'' = None
   \<and> cubes_metadata (provider_of defective_model) (JStr ''sales'') = Some j1_cube
   \<and> get j1_cube ''joins'' = JList [JDict j1_cube_join]
   \<and> fst (cube_metadata (provider_of defective_model) ''sales'') =
       Inl (ModelError (DuplicateJoinName (JStr ''j1'')))
   \<and> fst (cube_metadata (provider_of defective_model) ''sales'') \<noteq>
       Inl (ModelError MissingJoinName)"
  unfolding provider_defective_model
  by (simp add: resolve_defs defective_model_def j1_cube_def j1_model_join_def
        nameless_join_def)


section \<open>Joins merged by name\<close>

lemma spec_overwrite_add: "spec_overwrite mj j = mj ++ j"
  by (simp add: spec_overwrite_def map_add_def fun_eq_iff split: option.splits)

lemma find_never: "find (\<lambda>x. False) xs = None"
  by (induction xs) simp_all

lemma spec_resolve_join_unnamed:
  "\<not> truthy (get j ''name'') \<Longrightarrow> spec_resolve_join mjs j = j"
  by (simp add: spec_resolve_join_def find_never)

lemma spec_resolve_join_no_model_joins: "spec_resolve_join [] j = j"
  by (simp add: spec_resolve_join_def)

lemma map_spec_resolve_join_no_model_joins: "map (spec_resolve_join []) js = js"
  by (induction js) (simp_all add: spec_resolve_join_no_model_joins)

lemma spec_resolve_join_named:
  assumes "\<And>k. index k = find (\<lambda>m. m ''name'' = Some k) mjs"
      and "truthy (get j ''name'')"
  shows "(case index (get j ''name'') of Some m \<Rightarrow> m | None \<Rightarrow> Map.empty) ++ j =
           spec_resolve_join mjs j"
  using assms
  by (simp add: spec_resolve_join_def spec_overwrite_add split: option.splits)

lemma merge_cube_joins_spec:
  assumes index: "\<And>k. index k = find (\<lambda>m. m ''name'' = Some k) mjs"
  shows "merge_cube_joins index (map JDict cjs) nm acc = Inr (res, nm') \<Longrightarrow>
           res = acc @ map (spec_resolve_join mjs) cjs"
proof (induction cjs arbitrary: nm acc)
  case Nil
  then show ?case by simp
next
  case (Cons j cjs)
  show ?case
  proof (cases "truthy (get j ''name'')")
    case True
    with Cons.prems have
      "merge_cube_joins index (map JDict cjs) (get j ''name'')
         (acc @ [spec_resolve_join mjs j]) = Inr (res, nm')"
      using spec_resolve_join_named [OF index True]
      by (simp add: Let_def split: if_splits)
    from Cons.IH [OF this] show ?thesis by simp
  next
    case False
    with Cons.prems have
      "merge_cube_joins index (map JDict cjs) (get j ''name'')
         (acc @ [spec_resolve_join mjs j]) = Inr (res, nm')"
      by (simp add: Let_def spec_resolve_join_unnamed)
    from Cons.IH [OF this] show ?thesis by simp
  qed
qed

lemma merge_cube_joins_total:
  "list_all (\<lambda>j. hashable (get j ''name'')) cjs \<Longrightarrow>
     \<exists>res nm'. merge_cube_joins index (map JDict cjs) nm acc = Inr (res, nm')"
  by (induction cjs arbitrary: nm acc) (simp_all add: Let_def)

lemma model_join_map_total:
  assumes "list_all named_join mjs" and "distinct (map (\<lambda>m. get m ''name'') mjs)"
  shows "\<exists>index. model_join_map (map JDict mjs) Map.empty = Inr index"
  using model_join_map_prefix [of mjs Map.empty "[]"] assms
  by (simp add: list_all_iff)

lemma resolve_joins_spec:
  assumes mj: "get_default model ''joins'' (JList []) = JList (map JDict mjs)"
      and run: "resolve_joins model nm (JList (map JDict cjs)) = Inr (v, nm')"
  shows "v = JList (map (\<lambda>j. JDict (spec_resolve_join mjs j)) cjs)"
proof (cases "cjs \<noteq> [] \<and> mjs \<noteq> []")
  case True
  with run mj obtain index res where
    index: "model_join_map (map JDict mjs) Map.empty = Inr index"
    and res: "merge_cube_joins index (map JDict cjs) nm [] = Inr (res, nm')"
    and v: "v = JList (map JDict res)"
    by (auto simp: resolve_joins_def ebind_Inr)
  from model_join_map_Inr [OF index]
  have "index k = find (\<lambda>m. m ''name'' = Some k) mjs" for k
    by (simp add: index_lookup split: option.splits)
  from merge_cube_joins_spec [OF this res] v show ?thesis
    by simp
next
  case False
  then have "resolve_joins model nm (JList (map JDict cjs)) = Inr (JList (map JDict cjs), nm)"
    using mj by (intro resolve_joins_skip) auto
  with run have v: "v = JList (map JDict cjs)"
    by simp
  have "map (\<lambda>j. JDict (spec_resolve_join mjs j)) cjs = map JDict cjs"
  proof (cases "cjs = []")
    case True
    then show ?thesis by simp
  next
    case nonempty: False
    with False have "mjs = []" by blast
    then show ?thesis
      by (simp only: spec_resolve_join_no_model_joins)
  qed
  with v show ?thesis by simp
qed

lemma resolve_joins_total:
  assumes mj: "get_default model ''joins'' (JList []) = JList (map JDict mjs)"
      and "list_all named_join mjs" and "distinct (map (\<lambda>m. get m ''name'') mjs)"
      and "list_all (\<lambda>j. hashable (get j ''name'')) cjs"
  shows "\<exists>v nm'. resolve_joins model nm (JList (map JDict cjs)) = Inr (v, nm')"
proof -
  obtain index where "model_join_map (map JDict mjs) Map.empty = Inr index"
    using model_join_map_total assms(2,3) by blast
  moreover obtain res nm' where "merge_cube_joins index (map JDict cjs) nm [] = Inr (res, nm')"
    using merge_cube_joins_total assms(4) by blast
  ultimately show ?thesis
    using mj by (simp add: resolve_joins_def)
qed

lemma provider_j1_model:
  "provider_of j1_model =
     \<lparr>metadata = j1_model, dimensions_metadata = Map.empty,
      cubes_metadata = [JStr ''sales'' \<mapsto> j1_cube], options = Map.empty\<rparr>"
  by (simp add: provider_of_def init_def merge_defs j1_model_def j1_cube_def fun_eq_iff)

lemma provider_anon_model:
  "provider_of anon_model =
     \<lparr>metadata = anon_model, dimensions_metadata = Map.empty,
      cubes_metadata = [JStr ''sales'' \<mapsto> anon_cube], options = Map.empty\<rparr>"
  by (simp add: provider_of_def init_def merge_defs anon_model_def anon_cube_def fun_eq_iff)

lemma resolve_j1_model:
  "fst (cube_metadata (provider_of j1_model) ''sales'') = Inr j1_resolved"
  unfolding provider_j1_model
  by (simp add: resolve_defs j1_model_def j1_cube_def j1_model_join_def j1_cube_join_def
        j1_resolved_def fun_eq_iff)


text \<open>
  C4 as the code has it. Let the joins of the model and of the cube be lists of
  objects. Whenever the resolution of the cube returns, its joins are the cube's joins
  in the cube's order, each resolved as the specification says: a cube join whose
  \<^verbatim>\<open>name\<close> is true (not absent, not empty) and is the name of a model join is that
  model join overwritten field by field with the cube join, and any other cube join
  is passed through as it is. And the resolution does return when the option and
  mapping blocks are objects, the model joins have names that differ from each other,
  and every resolved join carries \<^verbatim>\<open>master\<close> and \<^verbatim>\<open>detail\<close>.
\<close>

theorem resolved_joins_by_name:
  assumes found: "cubes_metadata p (JStr name) = Some c"
      and mj: "get_default (metadata p) ''joins'' (JList []) = JList (map JDict mjs)"
      and cj: "get_default c ''joins'' (JList []) = JList (map JDict cjs)"
  shows "(\<forall>r. fst (cube_metadata p name) = Inr r \<longrightarrow>
            r ''joins'' = Some (JList (map (\<lambda>j. JDict (spec_resolve_join mjs j)) cjs)))
       \<and> (blocks_ok (metadata p) c
          \<and> list_all named_join mjs \<and> distinct (map (\<lambda>m. get m ''name'') mjs)
          \<and> list_all (\<lambda>j. hashable (get j ''name'')) cjs
          \<and> list_all complete_join (map (spec_resolve_join mjs) cjs) \<longrightarrow>
            (\<exists>r. fst (cube_metadata p name) = Inr r))"
proof (intro conjI allI impI)
  fix r
  assume "fst (cube_metadata p name) = Inr r"
  from cube_metadata_joins_Inr [OF found this] cj obtain rest where
    "finish_joins (metadata p) (JStr name) (JList (map JDict cjs)) rest = Inr r"
    by auto
  then obtain v nm' where
    run: "resolve_joins (metadata p) (JStr name) (JList (map JDict cjs)) = Inr (v, nm')"
    and r: "r = rest(''joins'' \<mapsto> v)"
    by (auto simp: finish_joins_def ebind_Inr)
  from resolve_joins_spec [OF mj run] r
  show "r ''joins'' = Some (JList (map (\<lambda>j. JDict (spec_resolve_join mjs j)) cjs))"
    by simp
next
  assume a: "blocks_ok (metadata p) c
          \<and> list_all named_join mjs \<and> distinct (map (\<lambda>m. get m ''name'') mjs)
          \<and> list_all (\<lambda>j. hashable (get j ''name'')) cjs
          \<and> list_all complete_join (map (spec_resolve_join mjs) cjs)"
  then obtain rest where rest: "fst (cube_metadata p name) =
      finish_joins (metadata p) (JStr name) (JList (map JDict cjs)) rest"
    using cube_metadata_joins_ok [OF found] cj by auto
  from a obtain v nm' where
    run: "resolve_joins (metadata p) (JStr name) (JList (map JDict cjs)) = Inr (v, nm')"
    using resolve_joins_total [OF mj] by blast
  have v: "v = JList (map JDict (map (spec_resolve_join mjs) cjs))"
    using resolve_joins_spec [OF mj run] by (simp add: comp_def)
  have "validate_joins nm' (map JDict (map (spec_resolve_join mjs) cjs)) = Inr ()"
    using a by (intro validate_joins_complete) simp
  then show "\<exists>r. fst (cube_metadata p name) = Inr r"
    by (simp add: rest finish_joins_def run v)
qed

theorem resolved_joins_by_name_witness:
  "cubes_metadata (provider_of j1_model) (JStr ''sales'') = Some j1_cube
   \<and> get_default (metadata (provider_of j1_model)) ''joins'' (JList []) =
       JList (map JDict [j1_model_join])
   \<and> get_default j1_cube ''joins'' (JList []) = JList (map JDict [j1_cube_join])
   \<and> blocks_ok (metadata (provider_of j1_model)) j1_cube
   \<and> list_all named_join [j1_model_join]
   \<and> distinct (map (\<lambda>m. get m ''name'') [j1_model_join])
   \<and> list_all (\<lambda>j. hashable (get j ''name'')) [j1_cube_join]
   \<and> list_all complete_join (map (spec_resolve_join [j1_model_join]) [j1_cube_join])
   \<and> fst (cube_metadata (provider_of j1_model) ''sales'') = Inr j1_resolved
   \<and> spec_resolve_join [j1_model_join] j1_cube_join =
       [''name'' \<mapsto> JStr ''j1'', ''master'' \<mapsto> JStr ''a.id'', ''detail'' \<mapsto> JStr ''b.aid2'']
   \<and> j1_resolved ''joins'' =
       Some (JList [JDict [''name'' \<mapsto> JStr ''j1'', ''master'' \<mapsto> JStr ''a.id'',
                           ''detail'' \<mapsto> JStr ''b.aid2'']])"
proof -
  have md: "metadata (provider_of j1_model) = j1_model"
    by (simp add: provider_j1_model)
  have found: "cubes_metadata (provider_of j1_model) (JStr ''sales'') = Some j1_cube"
    by (simp add: provider_j1_model)
  have mj: "get_default (metadata (provider_of j1_model)) ''joins'' (JList []) =
              JList (map JDict [j1_model_join])"
    unfolding md by (simp add: get_default_def j1_model_def)
  have cj: "get_default j1_cube ''joins'' (JList []) = JList (map JDict [j1_cube_join])"
    by (simp add: get_default_def j1_cube_def)
  have ok: "blocks_ok (metadata (provider_of j1_model)) j1_cube"
    unfolding md by (simp add: blocks_ok_def holds_dict_def j1_model_def j1_cube_def)
  have spec: "spec_resolve_join [j1_model_join] j1_cube_join =
       [''name'' \<mapsto> JStr ''j1'', ''master'' \<mapsto> JStr ''a.id'', ''detail'' \<mapsto> JStr ''b.aid2'']"
    by (auto simp: spec_resolve_join_def spec_overwrite_def get_def get_default_def
          j1_model_join_def j1_cube_join_def fun_eq_iff)
  have lists: "list_all named_join [j1_model_join]"
    "distinct (map (\<lambda>m. get m ''name'') [j1_model_join])"
    "list_all (\<lambda>j. hashable (get j ''name'')) [j1_cube_join]"
    "list_all complete_join (map (spec_resolve_join [j1_model_join]) [j1_cube_join])"
    by (simp_all add: spec)
       (simp_all add: named_join_def complete_join_def get_def get_default_def
          j1_model_join_def j1_cube_join_def)
  from resolved_joins_by_name [OF found mj cj] resolve_j1_model
  have "j1_resolved ''joins'' =
          Some (JList (map (\<lambda>j. JDict (spec_resolve_join [j1_model_join] j)) [j1_cube_join]))"
    by simp
  then have "j1_resolved ''joins'' =
       Some (JList [JDict [''name'' \<mapsto> JStr ''j1'', ''master'' \<mapsto> JStr ''a.id'',
                           ''detail'' \<mapsto> JStr ''b.aid2'']])"
    by (simp add: spec)
  with found mj cj ok lists resolve_j1_model spec show ?thesis
    by (simp only: simp_thms)
qed


text \<open>
  C4 as the specification has it fails for a name that is false in Python. In
  \<open>anon_model\<close> the model join and the cube join both have the name \<^verbatim>\<open>""\<close>, so the
  name of the cube join matches a model join; but the resolved join is the cube join
  as it is, without the \<^verbatim>\<open>alias\<close> of the model join, which the overwritten model
  join would have kept.
\<close>

theorem matching_empty_name_counterexample:
  "cubes_metadata (provider_of anon_model) (JStr ''sales'') = Some anon_cube
   \<and> get (metadata (provider_of anon_model)) ''joins'' = JList [JDict anon_model_join]
   \<and> get anon_cube ''joins'' = JList [JDict anon_cube_join]
   \<and> anon_cube_join ''name'' = anon_model_join ''name''
   \<and> fst (cube_metadata (provider_of anon_model) ''sales'') = Inr anon_resolved
   \<and> anon_resolved ''joins'' = Some (JList [JDict anon_cube_join])
   \<and> spec_overwrite anon_model_join anon_cube_join ''alias'' = Some (JStr ''b1'')
   \<and> anon_cube_join ''alias'' = None"
  unfolding provider_anon_model
  by (simp add: resolve_defs anon_model_def anon_cube_def anon_model_join_def
        anon_cube_join_def anon_resolved_def spec_overwrite_def fun_eq_iff)


section \<open>An invalid join is reported under the wrong cube name\<close>

text \<open>
  The failure itself is as specified: in the metadata that a resolution returns, every
  join carries \<^verbatim>\<open>master\<close> and \<^verbatim>\<open>detail\<close>. What goes wrong is the name in the
  message: after the merge loop, the variable \<^verbatim>\<open>name\<close> holds the name of the cube's
  last join.
\<close>

lemma validate_joins_Inr:
  "validate_joins nm (map JDict js) = Inr u \<Longrightarrow> list_all complete_join js"
  using validate_joins_incomplete [of js nm] by auto

lemma resolved_joins_complete:
  assumes found: "cubes_metadata p (JStr name) = Some c"
      and mj: "get_default (metadata p) ''joins'' (JList []) = JList (map JDict mjs)"
      and cj: "get_default c ''joins'' (JList []) = JList (map JDict cjs)"
      and r: "fst (cube_metadata p name) = Inr r"
  shows "list_all complete_join (map (spec_resolve_join mjs) cjs)"
proof -
  from cube_metadata_joins_Inr [OF found r] cj obtain rest where
    "finish_joins (metadata p) (JStr name) (JList (map JDict cjs)) rest = Inr r"
    by auto
  then obtain v nm' js where
    run: "resolve_joins (metadata p) (JStr name) (JList (map JDict cjs)) = Inr (v, nm')"
    and js: "py_iter v = Inr js" and valid: "validate_joins nm' js = Inr ()"
    by (auto simp: finish_joins_def ebind_Inr)
  from resolve_joins_spec [OF mj run] js
  have "js = map JDict (map (spec_resolve_join mjs) cjs)"
    by (auto simp: comp_def)
  with valid show ?thesis
    by (simp add: validate_joins_Inr)
qed

lemma merge_cube_joins_name:
  "merge_cube_joins index (map JDict cjs) nm acc = Inr (res, nm') \<Longrightarrow>
     nm' = (if cjs = [] then nm else get (last cjs) ''name'')"
proof (induction cjs arbitrary: nm acc)
  case Nil
  then show ?case by simp
next
  case (Cons j cjs)
  then obtain acc' where
    "merge_cube_joins index (map JDict cjs) (get j ''name'') acc' = Inr (res, nm')"
    by (auto simp: Let_def split: if_splits)
  from Cons.IH [OF this] show ?case by simp
qed


text \<open>
  C5 (a resolved join without \<^verbatim>\<open>master\<close> or \<^verbatim>\<open>detail\<close> makes the call fail with an
  error that cites the cube name and the join name). The code fails, but when the
  joins were merged the message does not cite the cube: the loop over the cube's joins
  has assigned each join's name to the variable \<^verbatim>\<open>name\<close>, which held the cube name.
  For the cube \<^verbatim>\<open>sales\<close> of \<open>j2_model\<close>, whose join \<^verbatim>\<open>j2\<close> has no \<^verbatim>\<open>detail\<close>, the
  message reads ``No detail in join for cube 'j2' (join name: j2)''.
\<close>

theorem invalid_join_cites_join_name_as_cube:
  "fst (cube_metadata (provider_of j2_model) ''sales'') =
     Inl (ModelError (NoDetailInJoin (JStr ''j2'') (JStr ''j2'')))"
  by (simp add: provider_of_def init_def merge_defs resolve_defs
        j2_model_def j2_cube_def j1_model_join_def)

end
